theory Spec2Isabelle
  imports Complex_Main "HOL-Library.Char_ord" "HOL-Library.List_Lexorder"
begin

section \<open>Python values, errors and XML elements\<close>

text \<open>
  The three stages exchange JSON documents and read XML envelopes. A loaded JSON document
  is a value of \<open>json\<close> (what \<^verbatim>\<open>json.load\<close> returns: \<^verbatim>\<open>None\<close>, \<^verbatim>\<open>bool\<close>, a finite
  number, \<^verbatim>\<open>str\<close>, \<^verbatim>\<open>list\<close>, \<^verbatim>\<open>dict\<close> with string keys in insertion order). An
  attribute or text that \<^verbatim>\<open>attrib.get\<close> or \<^verbatim>\<open>.text\<close> may return as \<^verbatim>\<open>None\<close> is a
  \<open>string option\<close>. Every exception the code can raise is a value of \<open>error\<close>.
\<close>

datatype json =
    JNull
  | JBool bool
  | JNum rat
  | JStr string
  | JArr "json list"
  | JObj "(string \<times> json) list"

datatype error =
    ValueError
  | KeyError
  | TypeError
  | AttributeError
  | FileNotFoundError
  | FetchError

definition ebind :: "error + 'a \<Rightarrow> ('a \<Rightarrow> error + 'b) \<Rightarrow> error + 'b" where
  "ebind r f = (case r of Inl e \<Rightarrow> Inl e | Inr v \<Rightarrow> f v)"

text \<open>Python truthiness of a loaded JSON value.\<close>

fun truthy :: "json \<Rightarrow> bool" where
  "truthy JNull = False"
| "truthy (JBool b) = b"
| "truthy (JNum n) = (n \<noteq> 0)"
| "truthy (JStr s) = (s \<noteq> [])"
| "truthy (JArr xs) = (xs \<noteq> [])"
| "truthy (JObj kvs) = (kvs \<noteq> [])"

text \<open>A Python \<^verbatim>\<open>str\<close> or \<^verbatim>\<open>None\<close> seen as a JSON value, and as formatted by an f-string.\<close>

fun opt_json :: "string option \<Rightarrow> json" where
  "opt_json None = JNull"
| "opt_json (Some s) = JStr s"

fun py_str :: "string option \<Rightarrow> string" where
  "py_str None = ''None''"
| "py_str (Some s) = s"

text \<open>
  \<^verbatim>\<open>d[k]\<close>, \<^verbatim>\<open>d.get(k, default)\<close> and \<^verbatim>\<open>k in d\<close> for a key that is a \<^verbatim>\<open>str\<close> or
  \<^verbatim>\<open>None\<close>. Only a \<^verbatim>\<open>dict\<close> can be subscripted by such a key and only a \<^verbatim>\<open>dict\<close> has
  \<^verbatim>\<open>.get\<close>; \<^verbatim>\<open>in\<close> is key membership on a \<^verbatim>\<open>dict\<close>, element membership on a \<^verbatim>\<open>list\<close>,
  the substring test on a \<^verbatim>\<open>str\<close>, and a \<^verbatim>\<open>TypeError\<close> elsewhere.
\<close>

fun dict_lookup :: "(string \<times> 'v) list \<Rightarrow> string option \<Rightarrow> 'v option" where
  "dict_lookup kvs None = None"
| "dict_lookup kvs (Some k) = map_of kvs k"

fun py_getitem :: "json \<Rightarrow> string option \<Rightarrow> error + json" where
  "py_getitem (JObj kvs) k =
     (case dict_lookup kvs k of None \<Rightarrow> Inl KeyError | Some v \<Rightarrow> Inr v)"
| "py_getitem _ k = Inl TypeError"

fun py_get :: "json \<Rightarrow> string option \<Rightarrow> json \<Rightarrow> error + json" where
  "py_get (JObj kvs) k dflt =
     Inr (case dict_lookup kvs k of None \<Rightarrow> dflt | Some v \<Rightarrow> v)"
| "py_get _ k dflt = Inl AttributeError"

definition starts_with :: "string \<Rightarrow> string \<Rightarrow> bool" where
  "starts_with p s = (take (length p) s = p)"

primrec contains_sub :: "string \<Rightarrow> string \<Rightarrow> bool" where
  "contains_sub p [] = (p = [])"
| "contains_sub p (c # cs) = (starts_with p (c # cs) \<or> contains_sub p cs)"

fun py_in :: "string option \<Rightarrow> json \<Rightarrow> error + bool" where
  "py_in k (JObj kvs) = Inr (dict_lookup kvs k \<noteq> None)"
| "py_in k (JArr xs) = Inr (opt_json k \<in> set xs)"
| "py_in (Some k) (JStr s) = Inr (contains_sub k s)"
| "py_in None (JStr s) = Inl TypeError"
| "py_in k _ = Inl TypeError"

text \<open>
  Assignment \<^verbatim>\<open>d[k] = v\<close> on a dict kept in insertion order: an existing key keeps its
  position, a new key goes last.
\<close>

fun dict_set :: "'k \<Rightarrow> 'v \<Rightarrow> ('k \<times> 'v) list \<Rightarrow> ('k \<times> 'v) list" where
  "dict_set k v [] = [(k, v)]"
| "dict_set k v (p # ps) = (if fst p = k then (k, v) # ps else p # dict_set k v ps)"

text \<open>
  An \<^verbatim>\<open>ElementTree\<close> element. A tag is written with the prefix of the \<^verbatim>\<open>namespaces\<close>
  table of the source (\<open>''generic:Obs''\<close> for the tag \<^verbatim>\<open>{...data/generic}Obs\<close>), a tag
  of no namespace without prefix (\<open>''Ref''\<close>).
\<close>

datatype xml = Element (tag: string) (attrib: "(string \<times> string) list")
  (elem_text: "string option") (children: "xml list")

fun descendants :: "xml \<Rightarrow> xml list" where
  "descendants (Element t a x cs) = concat (map (\<lambda>c. c # descendants c) cs)"

text \<open>The paths \<^verbatim>\<open>t\<close>, \<^verbatim>\<open>.//t\<close> and \<^verbatim>\<open>.//t/u\<close> of \<^verbatim>\<open>findall\<close>, in document order.\<close>

definition findall_child :: "string \<Rightarrow> xml \<Rightarrow> xml list" where
  "findall_child t e = filter (\<lambda>c. tag c = t) (children e)"

definition findall_desc :: "string \<Rightarrow> xml \<Rightarrow> xml list" where
  "findall_desc t e = filter (\<lambda>c. tag c = t) (descendants e)"

definition findall_desc_child :: "string \<Rightarrow> string \<Rightarrow> xml \<Rightarrow> xml list" where
  "findall_desc_child t u e = concat (map (findall_child u) (findall_desc t e))"

text \<open>\<^verbatim>\<open>find\<close> is the first element of \<^verbatim>\<open>findall\<close>, or \<^verbatim>\<open>None\<close>.\<close>

fun first :: "'a list \<Rightarrow> 'a option" where
  "first [] = None"
| "first (x # xs) = Some x"

definition attrib_get :: "xml \<Rightarrow> string \<Rightarrow> string option" where
  "attrib_get e k = map_of (attrib e) k"

definition xml_lang :: string where
  "xml_lang = ''{http://www.w3.org/XML/1998/namespace}lang''"

definition base_url :: string where
  "base_url = ''https://sdmx.istat.it/SDMXWS/rest''"

section \<open>Series Extractor\<close>

subsection \<open>Loading and validating the constraints\<close>

text \<open>
  The constraints directory is a finite map from file names to the parsed documents.
  \<^verbatim>\<open>find_constraints_file\<close> raises when the expected file is not there.
\<close>

definition find_constraints_file :: "(string \<rightharpoonup> json) \<Rightarrow> string \<Rightarrow> error + string" where
  "find_constraints_file files dataset_id =
     (let expected_filename = ''constraints_'' @ dataset_id @ ''.json'' in
      if files expected_filename = None then Inl FileNotFoundError
      else Inr expected_filename)"

definition load_constraints :: "(string \<rightharpoonup> json) \<Rightarrow> string \<Rightarrow> error + json" where
  "load_constraints files constraints_path =
     (case files constraints_path of None \<Rightarrow> Inl FileNotFoundError | Some doc \<Rightarrow> Inr doc)"

definition validate_constraints :: "string \<Rightarrow> json \<Rightarrow> error + unit" where
  "validate_constraints dataset_id constraints =
     ebind (py_getitem constraints (Some ''dataset_info'')) (\<lambda>info.
     ebind (py_getitem info (Some ''id'')) (\<lambda>cid.
       if JStr dataset_id \<noteq> cid then Inl ValueError else Inr ()))"

text \<open>The constructor: the extractor's state is the dataset id and the loaded constraints.\<close>

definition init_extractor :: "(string \<rightharpoonup> json) \<Rightarrow> string \<Rightarrow> error + json" where
  "init_extractor files dataset_id =
     ebind (find_constraints_file files dataset_id) (\<lambda>constraints_path.
     ebind (load_constraints files constraints_path) (\<lambda>constraints.
     ebind (validate_constraints dataset_id constraints) (\<lambda>_.
       Inr constraints)))"

subsection \<open>Label resolution\<close>

text \<open>
  The body of \<^verbatim>\<open>get_value_description\<close> inside its \<^verbatim>\<open>try\<close>; the \<^verbatim>\<open>or\<close> chain
  takes the first truthy operand and otherwise its last one.
\<close>

definition value_description_body :: "json \<Rightarrow> string option \<Rightarrow> string option \<Rightarrow> error + json" where
  "value_description_body constraints concept code =
     ebind (py_getitem constraints (Some ''dimensions'')) (\<lambda>dims.
     ebind (py_in concept dims) (\<lambda>found.
       if found then
         ebind (py_getitem dims concept) (\<lambda>dimension_info.
         ebind (py_getitem dimension_info (Some ''values'')) (\<lambda>vals.
         ebind (py_get vals code (JObj [])) (\<lambda>value_info.
         ebind (py_get value_info (Some ''name'') (JObj [])) (\<lambda>names.
         ebind (py_get names (Some ''en'') JNull) (\<lambda>en.
           if truthy en then Inr en
           else ebind (py_get names (Some ''it'') JNull) (\<lambda>it.
             if truthy it then Inr it
             else py_get names (Some ''default'') (opt_json code)))))))
       else Inr (opt_json code)))"

text \<open>The \<^verbatim>\<open>except Exception\<close> clause returns the code for every error of the body.\<close>

definition get_value_description :: "json \<Rightarrow> string option \<Rightarrow> string option \<Rightarrow> json" where
  "get_value_description constraints concept code =
     (case value_description_body constraints concept code of
        Inl e \<Rightarrow> opt_json code
      | Inr description \<Rightarrow> description)"

subsection \<open>Series records\<close>

text \<open>
  An observation's value is the result of \<^verbatim>\<open>float(value)\<close> or, when that raises
  \<^verbatim>\<open>ValueError\<close>, the attribute's text. Python's \<^verbatim>\<open>float\<close> is a parameter
  \<open>float :: string \<Rightarrow> 'f option\<close> of the model (\<open>None\<close> for \<^verbatim>\<open>ValueError\<close>). An
  appended observation always has both keys; its \<^verbatim>\<open>time_period\<close> is what
  \<^verbatim>\<open>attrib.get('value')\<close> returned, which may be \<^verbatim>\<open>None\<close>.
\<close>

datatype 'f obs_value = Parsed 'f | Raw string

record 'f observation =
  o_time_period :: "string option"
  o_value :: "'f obs_value"

record meta_entry =
  m_code :: "string option"
  m_description :: json

record series_info =
  i_id :: string
  i_names :: json
  i_structure_reference :: json
  i_generated_at :: string

record 'f series_data =
  sd_dataset_info :: series_info
  sd_metadata :: "(string option \<times> meta_entry) list"
  sd_observations :: "'f observation list"

text \<open>
  One pass of the loop over \<^verbatim>\<open>generic:Obs\<close>. \<open>obs_time_period\<close> is the
  \<^verbatim>\<open>"time_period"\<close> key of the \<^verbatim>\<open>observation\<close> dict (\<open>None\<close> when the key is not
  set, \<open>Some None\<close> when it is set to \<^verbatim>\<open>None\<close>), \<open>obs_raw_value\<close> is the \<^verbatim>\<open>value\<close>
  attribute read from the first \<^verbatim>\<open>generic:ObsValue\<close>, \<open>store_value\<close> is the
  \<^verbatim>\<open>try: float(value) except ValueError: value\<close>. The observation is appended when
  both keys are in the dict.
\<close>

definition obs_time_period :: "xml \<Rightarrow> string option option" where
  "obs_time_period obs =
     (case first (filter (\<lambda>d. attrib_get d ''id'' = Some ''TIME_PERIOD'')
                    (findall_child ''generic:ObsDimension'' obs)) of
        None \<Rightarrow> None
      | Some time_dim \<Rightarrow> Some (attrib_get time_dim ''value''))"

definition obs_raw_value :: "xml \<Rightarrow> string option" where
  "obs_raw_value obs =
     (case first (findall_child ''generic:ObsValue'' obs) of
        None \<Rightarrow> None
      | Some obs_value \<Rightarrow> attrib_get obs_value ''value'')"

definition store_value :: "(string \<Rightarrow> 'f option) \<Rightarrow> string \<Rightarrow> 'f obs_value" where
  "store_value float val = (case float val of Some x \<Rightarrow> Parsed x | None \<Rightarrow> Raw val)"

definition extract_observation :: "(string \<Rightarrow> 'f option) \<Rightarrow> xml \<Rightarrow> 'f observation option" where
  "extract_observation float obs =
     (let tp = obs_time_period obs;
          v = (case obs_raw_value obs of
                 None \<Rightarrow> None
               | Some val \<Rightarrow> if val \<noteq> [] then Some (store_value float val) else None)
      in case (tp, v) of
           (Some t, Some x) \<Rightarrow> Some \<lparr>o_time_period = t, o_value = x\<rparr>
         | _ \<Rightarrow> None)"

text \<open>
  \<^verbatim>\<open>observations.sort(key=lambda x: x.get("time_period", ""))\<close>: a stable sort on the
  keys. The key of every appended observation is its \<^verbatim>\<open>time_period\<close>; comparing a
  \<^verbatim>\<open>None\<close> key with any other key raises \<^verbatim>\<open>TypeError\<close>, and a list of at most one
  element is sorted without a comparison.
\<close>

definition sort_observations :: "'f observation list \<Rightarrow> error + 'f observation list" where
  "sort_observations obs =
     (if length obs \<le> 1 then Inr obs
      else if list_ex (\<lambda>x. o_time_period x = None) obs then Inl TypeError
      else Inr (sort_key (\<lambda>x. case o_time_period x of None \<Rightarrow> [] | Some s \<Rightarrow> s) obs))"

definition extract_metadata :: "json \<Rightarrow> xml \<Rightarrow> (string option \<times> meta_entry) list" where
  "extract_metadata constraints series_elem =
     (case first (findall_child ''generic:SeriesKey'' series_elem) of
        None \<Rightarrow> []
      | Some series_key \<Rightarrow>
          fold (\<lambda>val md.
                  let concept = attrib_get val ''id'';
                      code = attrib_get val ''value'';
                      description = get_value_description constraints concept code
                  in dict_set concept \<lparr>m_code = code, m_description = description\<rparr> md)
               (findall_desc ''generic:Value'' series_key) [])"

definition extract_series_key ::
  "(string \<Rightarrow> 'f option) \<Rightarrow> string \<Rightarrow> string \<Rightarrow> json \<Rightarrow> xml \<Rightarrow> error + 'f series_data" where
  "extract_series_key float now dataset_id constraints series_elem =
     ebind (py_getitem constraints (Some ''dataset_info'')) (\<lambda>info.
     ebind (py_getitem info (Some ''names'')) (\<lambda>names.
     ebind (py_getitem info (Some ''structure_reference'')) (\<lambda>structure_reference.
       let md = extract_metadata constraints series_elem;
           obs = List.map_filter (extract_observation float)
                   (findall_child ''generic:Obs'' series_elem)
       in ebind (if obs \<noteq> [] then sort_observations obs else Inr obs) (\<lambda>sorted_obs.
            Inr \<lparr>sd_dataset_info = \<lparr>i_id = dataset_id, i_names = names,
                                     i_structure_reference = structure_reference,
                                     i_generated_at = now\<rparr>,
                 sd_metadata = md,
                 sd_observations = sorted_obs\<rparr>))))"

subsection \<open>Processing all series\<close>

fun join :: "string \<Rightarrow> string list \<Rightarrow> string" where
  "join sep [] = []"
| "join sep [x] = x"
| "join sep (x # y # ys) = x @ sep @ join sep (y # ys)"

definition series_filename :: "string \<Rightarrow> 'f series_data \<Rightarrow> string" where
  "series_filename dataset_id series_data =
     (let filename_parts =
            (''dataset_'' @ dataset_id) #
            map (\<lambda>(concept, info). py_str concept @ ''-'' @ py_str (m_code info))
                (sd_metadata series_data)
      in ''series_'' @ join ''_'' filename_parts @ ''.json'')"

text \<open>
  The body of the loop of \<^verbatim>\<open>process_series\<close>: the file written for one series element,
  or \<open>None\<close> when the series is skipped (no observation, or an exception that the loop
  logs before it goes on). \<open>writable filename\<close> says whether \<^verbatim>\<open>open(output_path, 'w')\<close>
  and the write succeed for that name in the output directory; when they raise, the
  \<^verbatim>\<open>except\<close> clause of the loop skips the series as well.
\<close>

definition process_one ::
  "(string \<Rightarrow> bool) \<Rightarrow> (string \<Rightarrow> 'f option) \<Rightarrow> string \<Rightarrow> string \<Rightarrow> json \<Rightarrow> xml
     \<Rightarrow> (string \<times> 'f series_data) option" where
  "process_one writable float now dataset_id constraints series_elem =
     (case extract_series_key float now dataset_id constraints series_elem of
        Inl e \<Rightarrow> None
      | Inr series_data \<Rightarrow>
          if sd_observations series_data = [] then None
          else (let filename = series_filename dataset_id series_data
                in if writable filename then Some (filename, series_data) else None))"

definition fetch_series_data :: "(string \<Rightarrow> error + xml) \<Rightarrow> string \<Rightarrow> error + xml" where
  "fetch_series_data fetch dataset_id = fetch (base_url @ ''/data/'' @ dataset_id)"

text \<open>
  \<^verbatim>\<open>process_series\<close> returns the files it wrote, in order; \<open>clock i\<close> is what
  \<^verbatim>\<open>datetime.now().isoformat()\<close> gives while series \<open>i\<close> is processed.
\<close>

definition process_series ::
  "(string \<Rightarrow> bool) \<Rightarrow> (string \<Rightarrow> error + xml) \<Rightarrow> (string \<Rightarrow> 'f option) \<Rightarrow> (nat \<Rightarrow> string) \<Rightarrow> string \<Rightarrow> json
     \<Rightarrow> error + (string \<times> 'f series_data) list" where
  "process_series writable fetch float clock dataset_id constraints =
     ebind (fetch_series_data fetch dataset_id) (\<lambda>root.
       let series_elements = findall_desc ''generic:Series'' root
       in Inr (List.map_filter
                 (\<lambda>(i, series_elem). process_one writable float (clock i) dataset_id constraints series_elem)
                 (enumerate 1 series_elements)))"

text \<open>The entry point: construct the extractor, then process the series.\<close>

definition run_extractor ::
  "(string \<rightharpoonup> json) \<Rightarrow> (string \<Rightarrow> bool) \<Rightarrow> (string \<Rightarrow> error + xml) \<Rightarrow> (string \<Rightarrow> 'f option) \<Rightarrow> (nat \<Rightarrow> string) \<Rightarrow> string
     \<Rightarrow> error + (string \<times> 'f series_data) list" where
  "run_extractor files writable fetch float clock dataset_id =
     ebind (init_extractor files dataset_id) (\<lambda>constraints.
       process_series writable fetch float clock dataset_id constraints)"

section \<open>Constraint Resolver\<close>

text \<open>
  A loop whose body may raise: the first error ends the loop, as the exception would.
\<close>

fun efold :: "('a \<Rightarrow> 'b \<Rightarrow> error + 'b) \<Rightarrow> 'a list \<Rightarrow> 'b \<Rightarrow> error + 'b" where
  "efold f [] acc = Inr acc"
| "efold f (x # xs) acc = ebind (f x acc) (efold f xs)"

text \<open>
  \<^verbatim>\<open>get_available_constraints\<close>: the codes in use per dimension, read from the
  \<^verbatim>\<open>CubeRegion\<close> of the response; no \<^verbatim>\<open>CubeRegion\<close> gives the empty dict.
\<close>

definition truthy_text :: "xml \<Rightarrow> string option" where
  "truthy_text e = (case elem_text e of None \<Rightarrow> None | Some t \<Rightarrow> if t \<noteq> [] then Some t else None)"

definition get_available_constraints ::
  "(string \<Rightarrow> error + xml) \<Rightarrow> string \<Rightarrow> error + (string \<times> string list) list" where
  "get_available_constraints fetch dataset_id =
     ebind (fetch (base_url @ ''/availableconstraint/'' @ dataset_id)) (\<lambda>root.
       case first (findall_desc ''structure:CubeRegion'' root) of
         None \<Rightarrow> Inr []
       | Some cube_region \<Rightarrow>
           Inr (fold (\<lambda>key_value constraints.
                        case attrib_get key_value ''id'' of
                          None \<Rightarrow> constraints
                        | Some dim_id \<Rightarrow>
                            if dim_id \<noteq> [] then
                              dict_set dim_id
                                (List.map_filter truthy_text (findall_child ''common:Value'' key_value))
                                constraints
                            else constraints)
                  (findall_desc ''common:KeyValue'' cube_region) []))"

text \<open>
  \<^verbatim>\<open>get_dataflow_info\<close>: the \<^verbatim>\<open>dataset_info\<close> block. The language of a name and its
  text may be \<^verbatim>\<open>None\<close>; the structure reference is the empty dict when the response has
  none.
\<close>

record dataflow_info =
  df_id :: string
  df_names :: "(string option \<times> string option) list"
  df_structure_reference :: "(string \<times> string option) list"

definition get_dataflow_info :: "(string \<Rightarrow> error + xml) \<Rightarrow> string \<Rightarrow> error + dataflow_info" where
  "get_dataflow_info fetch dataset_id =
     ebind (fetch (base_url @ ''/dataflow/IT1/'' @ dataset_id)) (\<lambda>root.
       case first (findall_desc ''structure:Dataflow'' root) of
         None \<Rightarrow> Inr \<lparr>df_id = dataset_id, df_names = [], df_structure_reference = []\<rparr>
       | Some dataflow \<Rightarrow>
           Inr \<lparr>df_id = dataset_id,
                df_names = fold (\<lambda>name names. dict_set (attrib_get name xml_lang) (elem_text name) names)
                             (findall_desc ''common:Name'' dataflow) [],
                df_structure_reference =
                  (case first (findall_desc_child ''structure:Structure'' ''Ref'' dataflow) of
                     None \<Rightarrow> []
                   | Some struct_ref \<Rightarrow>
                       [(''agency_id'', attrib_get struct_ref ''agencyID''),
                        (''id'', attrib_get struct_ref ''id''),
                        (''version'', attrib_get struct_ref ''version'')])\<rparr>)"

definition load_mapping_file :: "(string \<rightharpoonup> json) \<Rightarrow> string \<Rightarrow> error + json" where
  "load_mapping_file mappings dataset_id =
     (case mappings (''mapping_'' @ dataset_id @ ''.json'') of
        None \<Rightarrow> Inl FileNotFoundError
      | Some doc \<Rightarrow> Inr doc)"

text \<open>
  The overview. Under each code the overview stores the dict \<^verbatim>\<open>{"name": ...}\<close>, here a
  JSON object. \<open>value_entry\<close> is the body of the loop over the codes of one dimension,
  \<open>build_dimension\<close> the body of the loop over the dimensions.
\<close>

record dim_overview =
  d_id :: string
  d_values :: "(string \<times> json) list"

record overview =
  ov_dataset_info :: dataflow_info
  ov_generated_at :: string
  ov_dimensions :: "(string \<times> dim_overview) list"

definition value_entry :: "json \<Rightarrow> string \<Rightarrow> error + json" where
  "value_entry dim_info val =
     ebind (py_get dim_info (Some ''values'') (JObj [])) (\<lambda>vals.
     ebind (py_get vals (Some val) (JObj [])) (\<lambda>value_info.
       if truthy value_info then
         ebind (py_get value_info (Some ''name'') (JObj [(''default'', JStr val)])) (\<lambda>name.
           Inr (JObj [(''name'', name)]))
       else Inr (JObj [(''name'', JObj [(''default'', JStr val)])])))"

definition build_dimension :: "json \<Rightarrow> string \<Rightarrow> string list \<Rightarrow> error + dim_overview" where
  "build_dimension mapping dim_id vals =
     ebind (py_get mapping (Some ''dimensions'') (JObj [])) (\<lambda>dims.
     ebind (py_get dims (Some dim_id) (JObj [])) (\<lambda>dim_info.
     ebind (efold (\<lambda>val entries.
                     ebind (value_entry dim_info val) (\<lambda>entry. Inr (dict_set val entry entries)))
              vals []) (\<lambda>entries.
       Inr \<lparr>d_id = dim_id, d_values = entries\<rparr>)))"

definition build_constraints_overview ::
  "(string \<Rightarrow> error + xml) \<Rightarrow> (string \<rightharpoonup> json) \<Rightarrow> string \<Rightarrow> string \<Rightarrow> error + overview" where
  "build_constraints_overview fetch mappings now dataset_id =
     ebind (get_dataflow_info fetch dataset_id) (\<lambda>dataflow_info.
     ebind (get_available_constraints fetch dataset_id) (\<lambda>available_constraints.
     ebind (load_mapping_file mappings dataset_id) (\<lambda>mapping.
     ebind (efold (\<lambda>(dim_id, vals) dims.
                     ebind (build_dimension mapping dim_id vals) (\<lambda>d. Inr (dict_set dim_id d dims)))
              available_constraints []) (\<lambda>dims.
       Inr \<lparr>ov_dataset_info = dataflow_info, ov_generated_at = now, ov_dimensions = dims\<rparr>))))"

section \<open>Codelist Mapping Resolver\<close>

record data_structure_info =
  agency_id :: "string option"
  structure_id :: "string option"
  version :: "string option"

record codelist_ref =
  cl_agency_id :: "string option"
  cl_id :: "string option"
  cl_version :: string

definition get_structure_from_data ::
  "(string \<Rightarrow> error + xml) \<Rightarrow> string \<Rightarrow> error + data_structure_info" where
  "get_structure_from_data fetch dataset_id =
     ebind (fetch (base_url @ ''/data/'' @ dataset_id)) (\<lambda>root.
       case first (findall_desc ''common:Structure'' root) of
         None \<Rightarrow> Inl ValueError
       | Some struct_elem \<Rightarrow>
           (case first (findall_child ''Ref'' struct_elem) of
              None \<Rightarrow> Inl ValueError
            | Some ref_elem \<Rightarrow>
                Inr \<lparr>agency_id = attrib_get ref_elem ''agencyID'',
                     structure_id = attrib_get ref_elem ''id'',
                     version = attrib_get ref_elem ''version''\<rparr>))"

text \<open>
  \<^verbatim>\<open>get_dimension_codelist_refs\<close>: a dimension without an id and a dimension without
  an enumeration reference are passed over.
\<close>

definition get_dimension_codelist_refs ::
  "(string \<Rightarrow> error + xml) \<Rightarrow> data_structure_info \<Rightarrow> error + (string \<times> codelist_ref) list" where
  "get_dimension_codelist_refs fetch structure_info =
     ebind (fetch (base_url @ ''/datastructure/'' @ py_str (agency_id structure_info) @ ''/''
                     @ py_str (structure_id structure_info))) (\<lambda>root.
       Inr (fold (\<lambda>dim codelist_refs.
                    case attrib_get dim ''id'' of
                      None \<Rightarrow> codelist_refs
                    | Some dim_id \<Rightarrow>
                        if dim_id = [] then codelist_refs
                        else (case first (findall_desc_child ''structure:Enumeration'' ''Ref'' dim) of
                                None \<Rightarrow> codelist_refs
                              | Some enum_ref \<Rightarrow>
                                  dict_set dim_id
                                    \<lparr>cl_agency_id = (case attrib_get enum_ref ''agencyID'' of
                                                       None \<Rightarrow> agency_id structure_info
                                                     | Some a \<Rightarrow> Some a),
                                     cl_id = attrib_get enum_ref ''id'',
                                     cl_version = (case attrib_get enum_ref ''version'' of
                                                     None \<Rightarrow> ''1.0''
                                                   | Some v \<Rightarrow> v)\<rparr>
                                    codelist_refs))
              (findall_desc ''structure:Dimension'' root) []))"

text \<open>
  \<^verbatim>\<open>get_codelist_values\<close>: the names and descriptions of every code by language; a
  name without a language attribute goes under \<open>''default''\<close>; a code without an id is
  passed over.
\<close>

record code_value =
  cv_name :: "(string \<times> string option) list"
  cv_description :: "(string \<times> string option) list"

record codelist_data =
  cd_name :: "(string \<times> string option) list"
  cd_description :: "(string \<times> string option) list"
  cd_values :: "(string \<times> code_value) list"

definition by_language :: "xml list \<Rightarrow> (string \<times> string option) list" where
  "by_language elems =
     fold (\<lambda>name d.
             dict_set (case attrib_get name xml_lang of None \<Rightarrow> ''default'' | Some lang \<Rightarrow> lang)
               (elem_text name) d)
       elems []"

definition get_codelist_values ::
  "(string \<Rightarrow> error + xml) \<Rightarrow> codelist_ref \<Rightarrow> error + codelist_data" where
  "get_codelist_values fetch codelist_ref =
     ebind (fetch (base_url @ ''/codelist/'' @ py_str (cl_agency_id codelist_ref) @ ''/''
                     @ py_str (cl_id codelist_ref))) (\<lambda>root.
       Inr \<lparr>cd_name = by_language (findall_desc_child ''structure:Name'' ''common:Name'' root),
            cd_description = [],
            cd_values =
              fold (\<lambda>code vals.
                      case attrib_get code ''id'' of
                        None \<Rightarrow> vals
                      | Some code_id \<Rightarrow>
                          if code_id = [] then vals
                          else dict_set code_id
                                 \<lparr>cv_name = by_language (findall_desc ''common:Name'' code),
                                  cv_description =
                                    by_language (findall_desc ''common:Description'' code)\<rparr>
                                 vals)
                (findall_desc ''structure:Code'' root) []\<rparr>)"

record dim_mapping =
  dm_codelist :: codelist_ref
  dm_codelist_name :: "(string \<times> string option) list"
  dm_codelist_description :: "(string \<times> string option) list"
  dm_values :: "(string \<times> code_value) list"

record mapping =
  mp_dataset_id :: string
  mp_generated_at :: string
  mp_structure :: data_structure_info
  mp_dimensions :: "(string \<times> dim_mapping) list"

definition build_mapping ::
  "(string \<Rightarrow> error + xml) \<Rightarrow> string \<Rightarrow> string \<Rightarrow> error + mapping" where
  "build_mapping fetch now dataset_id =
     ebind (get_structure_from_data fetch dataset_id) (\<lambda>structure_info.
     ebind (get_dimension_codelist_refs fetch structure_info) (\<lambda>codelist_refs.
     ebind (efold (\<lambda>(dim_id, codelist_ref) dims.
                     ebind (get_codelist_values fetch codelist_ref) (\<lambda>codelist_data.
                       Inr (dict_set dim_id
                              \<lparr>dm_codelist = codelist_ref,
                               dm_codelist_name = cd_name codelist_data,
                               dm_codelist_description = cd_description codelist_data,
                               dm_values = cd_values codelist_data\<rparr> dims)))
              codelist_refs []) (\<lambda>dims.
       Inr \<lparr>mp_dataset_id = dataset_id, mp_generated_at = now,
            mp_structure = structure_info, mp_dimensions = dims\<rparr>)))"

text \<open>
  The mapping file: what \<^verbatim>\<open>json.dump\<close> writes for the dict that \<^verbatim>\<open>build_mapping\<close>
  returns, as \<^verbatim>\<open>json.load\<close> reads it back.
\<close>

definition lang_json :: "(string \<times> string option) list \<Rightarrow> json" where
  "lang_json d = JObj (map (\<lambda>(lang, t). (lang, opt_json t)) d)"

definition code_value_json :: "code_value \<Rightarrow> json" where
  "code_value_json cv =
     JObj [(''name'', lang_json (cv_name cv)), (''description'', lang_json (cv_description cv))]"

definition dim_mapping_json :: "dim_mapping \<Rightarrow> json" where
  "dim_mapping_json dm =
     JObj [(''codelist'',
            JObj [(''id'', opt_json (cl_id (dm_codelist dm))),
                  (''agency_id'', opt_json (cl_agency_id (dm_codelist dm))),
                  (''version'', JStr (cl_version (dm_codelist dm))),
                  (''name'', lang_json (dm_codelist_name dm)),
                  (''description'', lang_json (dm_codelist_description dm))]),
           (''values'', JObj (map (\<lambda>(code, cv). (code, code_value_json cv)) (dm_values dm)))]"

definition mapping_json :: "mapping \<Rightarrow> json" where
  "mapping_json m =
     JObj [(''dataset_id'', JStr (mp_dataset_id m)),
           (''generated_at'', JStr (mp_generated_at m)),
           (''structure'',
            JObj [(''agency_id'', opt_json (agency_id (mp_structure m))),
                  (''id'', opt_json (structure_id (mp_structure m))),
                  (''version'', opt_json (version (mp_structure m)))]),
           (''dimensions'',
            JObj (map (\<lambda>(dim_id, dm). (dim_id, dim_mapping_json dm)) (mp_dimensions m)))]"

text \<open>
  Auxiliary: the entry that the Constraint Resolver stores for a code, read off the mapping
  that was written to the file (used to state what \<open>build_dimension\<close> computes).
\<close>

definition label_of :: "mapping \<Rightarrow> string \<Rightarrow> string \<Rightarrow> json" where
  "label_of m dim_id val =
     JObj [(''name'',
            case (case map_of (mp_dimensions m) dim_id of
                    None \<Rightarrow> None | Some dm \<Rightarrow> map_of (dm_values dm) val) of
              None \<Rightarrow> JObj [(''default'', JStr val)]
            | Some cv \<Rightarrow> lang_json (cv_name cv))]"

section \<open>Sample data\<close>

text \<open>
  The data of the end-to-end example: a dataset \<open>D\<close> with the dimensions \<open>FREQ\<close> and
  \<open>ITTER107\<close>, one series keyed \<open>FREQ=A, ITTER107=IT\<close> with the observations
  \<open>("2019", "10.5")\<close> and \<open>("2018", "9.1")\<close>, and variations of it. \<open>float_sample\<close> is
  Python's \<^verbatim>\<open>float\<close> on the value texts that occur in the samples.
\<close>

definition float_sample :: "string \<Rightarrow> rat option" where
  "float_sample s =
     (if s = ''10.5'' then Some (21 / 2) else if s = ''9.1'' then Some (91 / 10) else None)"

definition ex_names_A :: "(string \<times> json) list" where
  "ex_names_A = [(''en'', JStr ''annual''), (''it'', JStr ''annuale'')]"

definition ex_names_Q :: "(string \<times> json) list" where
  "ex_names_Q = [(''en'', JStr []), (''it'', JStr ''trimestrale'')]"

definition ex_names_IT :: "(string \<times> json) list" where
  "ex_names_IT = [(''default'', JStr ''Italia'')]"

definition ex_freq_values :: "(string \<times> json) list" where
  "ex_freq_values = [(''A'', JObj [(''name'', JObj ex_names_A)]),
                     (''Q'', JObj [(''name'', JObj ex_names_Q)])]"

definition ex_itter_values :: "(string \<times> json) list" where
  "ex_itter_values = [(''IT'', JObj [(''name'', JObj ex_names_IT)])]"

definition ex_freq :: json where
  "ex_freq = JObj [(''id'', JStr ''FREQ''), (''values'', JObj ex_freq_values)]"

definition ex_itter :: json where
  "ex_itter = JObj [(''id'', JStr ''ITTER107''), (''values'', JObj ex_itter_values)]"

definition ex_dims :: "(string \<times> json) list" where
  "ex_dims = [(''FREQ'', ex_freq), (''ITTER107'', ex_itter)]"

definition ex_dataset_info :: "string \<Rightarrow> json" where
  "ex_dataset_info dataset_id =
     JObj [(''id'', JStr dataset_id), (''names'', JObj [(''en'', JStr ''Demo'')]),
           (''structure_reference'', JObj [])]"

definition ex_constraints :: json where
  "ex_constraints = JObj [(''dataset_info'', ex_dataset_info ''D''), (''dimensions'', JObj ex_dims)]"

definition ex_files :: "string \<rightharpoonup> json" where
  "ex_files = map_of [(''constraints_A.json'', JObj [(''dataset_info'', ex_dataset_info ''B''),
                                                      (''dimensions'', JObj ex_dims)])]"

definition ex_obs :: "string \<Rightarrow> string \<Rightarrow> xml" where
  "ex_obs period val = Element ''generic:Obs'' [] None [
       Element ''generic:ObsDimension'' [(''id'', ''TIME_PERIOD''), (''value'', period)] None [],
       Element ''generic:ObsValue'' [(''value'', val)] None []]"

definition ex_obs_no_period :: xml where
  "ex_obs_no_period = Element ''generic:Obs'' [] None [
       Element ''generic:ObsDimension'' [(''id'', ''TIME_PERIOD'')] None [],
       Element ''generic:ObsValue'' [(''value'', ''10.5'')] None []]"

definition ex_key :: xml where
  "ex_key = Element ''generic:SeriesKey'' [] None [
       Element ''generic:Value'' [(''id'', ''FREQ''), (''value'', ''A'')] None [],
       Element ''generic:Value'' [(''id'', ''ITTER107''), (''value'', ''IT'')] None []]"

definition ex_key_reordered :: xml where
  "ex_key_reordered = Element ''generic:SeriesKey'' [] None [
       Element ''generic:Value'' [(''id'', ''ITTER107''), (''value'', ''IT'')] None [],
       Element ''generic:Value'' [(''id'', ''FREQ''), (''value'', ''A'')] None []]"

definition ex_series :: xml where
  "ex_series = Element ''generic:Series'' [] None
     [ex_key, ex_obs ''2019'' ''10.5'', ex_obs ''2018'' ''9.1'']"

definition ex_series_reordered :: xml where
  "ex_series_reordered = Element ''generic:Series'' [] None
     [ex_key_reordered, ex_obs ''2019'' ''10.5'', ex_obs ''2018'' ''9.1'']"

definition ex_key_repeated :: xml where
  "ex_key_repeated = Element ''generic:SeriesKey'' [] None [
       Element ''generic:Value'' [(''id'', ''FREQ''), (''value'', ''A'')] None [],
       Element ''generic:Value'' [(''id'', ''FREQ''), (''value'', ''Q'')] None []]"

definition ex_series_repeated :: xml where
  "ex_series_repeated = Element ''generic:Series'' [] None
     [ex_key_repeated, ex_obs ''2019'' ''10.5'']"

definition ex_key_slash :: xml where
  "ex_key_slash = Element ''generic:SeriesKey'' [] None [
       Element ''generic:Value'' [(''id'', ''FREQ''), (''value'', ''A/B'')] None []]"

definition ex_series_slash :: xml where
  "ex_series_slash = Element ''generic:Series'' [] None
     [ex_key_slash, ex_obs ''2019'' ''10.5'']"

definition ex_series_empty_value :: xml where
  "ex_series_empty_value = Element ''generic:Series'' [] None
     [ex_key, ex_obs ''2019'' [], ex_obs ''2018'' ''9.1'']"

definition ex_series_no_period :: xml where
  "ex_series_no_period = Element ''generic:Series'' [] None [ex_key, ex_obs_no_period]"

text \<open>An output directory that takes every file name without a path separator.\<close>

definition ex_writable :: "string \<Rightarrow> bool" where
  "ex_writable filename = (CHR ''/'' \<notin> set filename)"

definition ex_fetch :: "xml list \<Rightarrow> string \<Rightarrow> error + xml" where
  "ex_fetch series url =
     (if url = ''https://sdmx.istat.it/SDMXWS/rest/data/D''
      then Inr (Element ''message:GenericData'' [] None
                  [Element ''message:DataSet'' [] None series])
      else Inl FetchError)"

text \<open>
  The responses of the service for the dataset \<open>D\<close>. The structure definition has a
  dimension without an enumeration reference, the code list a code without an id, and the
  constraint region a code \<open>Q\<close> that the code list does not have. \<open>ex_service_bare\<close>
  answers with envelopes that hold no structure reference and no constraint region.
\<close>

definition ex_data_response :: xml where
  "ex_data_response = Element ''message:GenericData'' [] None [
     Element ''message:Header'' [] None [
       Element ''message:Structure'' [] None [
         Element ''common:Structure'' [] None [
           Element ''Ref'' [(''agencyID'', ''IT1''), (''id'', ''DSD_D''), (''version'', ''1.0'')]
             None []]]],
     Element ''message:DataSet'' [] None [ex_series]]"

definition ex_dimension_no_enum :: xml where
  "ex_dimension_no_enum = Element ''structure:Dimension'' [(''id'', ''ITTER107'')] None []"

definition ex_code_no_id :: xml where
  "ex_code_no_id = Element ''structure:Code'' [] None [
     Element ''common:Name'' [(xml_lang, ''en'')] (Some ''quarterly'') []]"

definition ex_datastructure_response :: xml where
  "ex_datastructure_response = Element ''message:Structure'' [] None [
     Element ''structure:DimensionList'' [] None [
       Element ''structure:Dimension'' [(''id'', ''FREQ'')] None [
         Element ''structure:LocalRepresentation'' [] None [
           Element ''structure:Enumeration'' [] None [
             Element ''Ref'' [(''id'', ''CL_FREQ'')] None []]]],
       ex_dimension_no_enum]]"

definition ex_codelist_response :: xml where
  "ex_codelist_response = Element ''message:Structure'' [] None [
     Element ''structure:Codelist'' [(''id'', ''CL_FREQ'')] None [
       Element ''structure:Code'' [(''id'', ''A'')] None [
         Element ''common:Name'' [(xml_lang, ''en'')] (Some ''annual'') []],
       ex_code_no_id]]"

definition ex_dataflow_response :: xml where
  "ex_dataflow_response = Element ''message:Structure'' [] None [
     Element ''structure:Dataflow'' [(''id'', ''D'')] None [
       Element ''common:Name'' [(xml_lang, ''en'')] (Some ''Demo'') []]]"

definition ex_constraint_response :: xml where
  "ex_constraint_response = Element ''message:Structure'' [] None [
     Element ''structure:ContentConstraint'' [] None [
       Element ''structure:CubeRegion'' [] None [
         Element ''common:KeyValue'' [(''id'', ''FREQ'')] None [
           Element ''common:Value'' [] (Some ''A'') [],
           Element ''common:Value'' [] (Some ''Q'') []]]]]"

definition ex_bare_response :: xml where
  "ex_bare_response = Element ''message:Structure'' [] None []"

definition ex_service :: "string \<Rightarrow> error + xml" where
  "ex_service url =
     (if url = ''https://sdmx.istat.it/SDMXWS/rest/data/D'' then Inr ex_data_response
      else if url = ''https://sdmx.istat.it/SDMXWS/rest/datastructure/IT1/DSD_D''
        then Inr ex_datastructure_response
      else if url = ''https://sdmx.istat.it/SDMXWS/rest/codelist/IT1/CL_FREQ''
        then Inr ex_codelist_response
      else if url = ''https://sdmx.istat.it/SDMXWS/rest/dataflow/IT1/D''
        then Inr ex_dataflow_response
      else if url = ''https://sdmx.istat.it/SDMXWS/rest/availableconstraint/D''
        then Inr ex_constraint_response
      else Inl FetchError)"

definition ex_service_bare :: "string \<Rightarrow> error + xml" where
  "ex_service_bare url =
     (if url = ''https://sdmx.istat.it/SDMXWS/rest/dataflow/IT1/D'' then Inr ex_dataflow_response
      else Inr ex_bare_response)"

definition ex_structure_info :: data_structure_info where
  "ex_structure_info =
     \<lparr>agency_id = Some ''IT1'', structure_id = Some ''DSD_D'', version = Some ''1.0''\<rparr>"

definition ex_codelist_ref :: codelist_ref where
  "ex_codelist_ref = \<lparr>cl_agency_id = Some ''IT1'', cl_id = Some ''CL_FREQ'', cl_version = ''1.0''\<rparr>"

definition ex_mapping :: mapping where
  "ex_mapping =
     \<lparr>mp_dataset_id = ''D'', mp_generated_at = ''t'', mp_structure = ex_structure_info,
      mp_dimensions =
        [(''FREQ'', \<lparr>dm_codelist = ex_codelist_ref, dm_codelist_name = [],
                     dm_codelist_description = [],
                     dm_values = [(''A'', \<lparr>cv_name = [(''en'', Some ''annual'')],
                                          cv_description = []\<rparr>)]\<rparr>)]\<rparr>"

definition ex_mappings :: "string \<rightharpoonup> json" where
  "ex_mappings = map_of [(''mapping_D.json'', mapping_json ex_mapping)]"

section \<open>Auxiliary facts\<close>

lemmas ex_defs = float_sample_def ex_names_A_def ex_names_Q_def ex_names_IT_def
  ex_freq_values_def ex_itter_values_def ex_freq_def ex_itter_def ex_dims_def ex_dataset_info_def ex_constraints_def
  ex_files_def ex_obs_def ex_obs_no_period_def ex_key_def ex_key_reordered_def ex_series_def
  ex_series_reordered_def ex_series_empty_value_def ex_series_no_period_def ex_fetch_def
  ex_writable_def ex_key_repeated_def ex_series_repeated_def ex_key_slash_def
  ex_series_slash_def
  ex_data_response_def ex_dimension_no_enum_def ex_code_no_id_def ex_datastructure_response_def
  ex_codelist_response_def ex_dataflow_response_def ex_constraint_response_def
  ex_bare_response_def ex_service_def ex_service_bare_def ex_structure_info_def
  ex_codelist_ref_def ex_mapping_def ex_mappings_def

lemmas eval_defs = process_series_def fetch_series_data_def base_url_def process_one_def
  extract_series_key_def extract_metadata_def findall_child_def findall_desc_def
  attrib_get_def get_value_description_def value_description_body_def List.map_filter_def
  extract_observation_def obs_time_period_def obs_raw_value_def store_value_def
  sort_observations_def series_filename_def enumerate_eq_zip

lemma ebind_Inr [simp]: "ebind (Inr v) f = f v"
  by (simp add: ebind_def)

lemma ebind_Inl [simp]: "ebind (Inl e) f = Inl e"
  by (simp add: ebind_def)

lemma ebind_eq_Inr: "ebind r f = Inr y \<longleftrightarrow> (\<exists>v. r = Inr v \<and> f v = Inr y)"
  by (cases r) simp_all

subsection \<open>Lists and dicts\<close>

lemma set_map_filter: "set (List.map_filter f xs) = {y. \<exists>x\<in>set xs. f x = Some y}"
  by (induction xs) (auto split: option.splits)

lemma length_map_filter_le:
  "(\<And>x y. x \<in> set xs \<Longrightarrow> f x = Some y \<Longrightarrow> P x) \<Longrightarrow>
   length (List.map_filter f xs) \<le> length (filter P xs)"
proof (induction xs)
  case Nil
  then show ?case by simp
next
  case (Cons a xs)
  then have "length (List.map_filter f xs) \<le> length (filter P xs)" by simp
  with Cons.prems [of a] show ?case
    by (cases "f a") auto
qed

lemma map_fst_map_filter:
  "map fst (List.map_filter f xs) = List.map_filter (\<lambda>x. map_option fst (f x)) xs"
  by (induction xs) (auto split: option.splits)

lemma map_filter_cong:
  "(\<And>x. x \<in> set xs \<Longrightarrow> f x = g x) \<Longrightarrow> List.map_filter f xs = List.map_filter g xs"
proof (induction xs)
  case Nil
  show ?case by simp
next
  case (Cons a xs)
  have "f a = g a" by (rule Cons.prems) simp
  moreover have "List.map_filter f xs = List.map_filter g xs"
    by (rule Cons.IH, rule Cons.prems) simp
  ultimately show ?case by (simp split: option.splits)
qed

lemma sorted_map_short: "length xs \<le> 1 \<Longrightarrow> sorted (map f xs)"
  by (cases xs) auto

lemma dict_set_fresh: "k \<notin> fst ` set ps \<Longrightarrow> dict_set k v ps = ps @ [(k, v)]"
  by (induction ps) auto

lemma fold_dict_set_distinct:
  "distinct (map f xs) \<Longrightarrow> \<forall>x\<in>set xs. f x \<notin> fst ` set acc \<Longrightarrow>
   fold (\<lambda>x md. dict_set (f x) (g x) md) xs acc = acc @ map (\<lambda>x. (f x, g x)) xs"
proof (induction xs arbitrary: acc)
  case Nil
  then show ?case by simp
next
  case (Cons a xs)
  have fresh: "dict_set (f a) (g a) acc = acc @ [(f a, g a)]"
    using Cons.prems(2) by (simp add: dict_set_fresh)
  have d: "distinct (map f xs)" and na: "f a \<notin> f ` set xs"
    using Cons.prems(1) by simp_all
  have "f x \<notin> fst ` set (acc @ [(f a, g a)])" if "x \<in> set xs" for x
  proof -
    from that na have "f x \<noteq> f a" by (metis imageI)
    moreover from that Cons.prems(2) have "f x \<notin> fst ` set acc" by simp
    ultimately show ?thesis by simp
  qed
  then have "\<forall>x\<in>set xs. f x \<notin> fst ` set (acc @ [(f a, g a)])" by blast
  from Cons.IH [OF d this]
  have "fold (\<lambda>x md. dict_set (f x) (g x) md) xs (acc @ [(f a, g a)])
      = (acc @ [(f a, g a)]) @ map (\<lambda>x. (f x, g x)) xs" .
  with fresh show ?case by simp
qed

subsection \<open>Observations of a series\<close>

lemma extract_observation_Some:
  "extract_observation float obs = Some ob \<longleftrightarrow>
     (\<exists>t val. obs_time_period obs = Some t \<and> obs_raw_value obs = Some val \<and> val \<noteq> []
        \<and> ob = \<lparr>o_time_period = t, o_value = store_value float val\<rparr>)"
  by (auto simp add: extract_observation_def split: option.splits)

lemma sort_observations_set: "sort_observations obs = Inr s \<Longrightarrow> set s = set obs"
  by (auto simp add: sort_observations_def split: if_splits)

lemma sort_observations_length: "sort_observations obs = Inr s \<Longrightarrow> length s = length obs"
  by (auto simp add: sort_observations_def split: if_splits)

lemma sort_observations_sorted:
  "sort_observations obs = Inr s \<Longrightarrow>
   sorted (map (\<lambda>x. case o_time_period x of None \<Rightarrow> [] | Some s \<Rightarrow> s) s)"
  by (auto simp add: sort_observations_def sorted_map_short split: if_splits)

lemma extract_series_key_Inr:
  assumes "extract_series_key float now dataset_id constraints series_elem = Inr sd"
  shows "sd_observations sd = [] \<and> List.map_filter (extract_observation float)
             (findall_child ''generic:Obs'' series_elem) = []
       \<or> sort_observations (List.map_filter (extract_observation float)
             (findall_child ''generic:Obs'' series_elem)) = Inr (sd_observations sd)"
  using assms
  by (auto simp add: extract_series_key_def ebind_eq_Inr Let_def split: if_splits)

text \<open>
  What holds of every record that \<^verbatim>\<open>extract_series_key\<close> returns: its observations are
  the appended ones, in ascending order of the sort key.
\<close>

lemma extract_series_key_obs:
  assumes "extract_series_key float now dataset_id constraints series_elem = Inr sd"
  shows "set (sd_observations sd) =
           {ob. \<exists>obs\<in>set (findall_child ''generic:Obs'' series_elem).
                  extract_observation float obs = Some ob}"
    and "length (sd_observations sd) =
           length (List.map_filter (extract_observation float)
                     (findall_child ''generic:Obs'' series_elem))"
    and "sorted (map (\<lambda>x. case o_time_period x of None \<Rightarrow> [] | Some s \<Rightarrow> s)
                   (sd_observations sd))"
  using extract_series_key_Inr [OF assms]
    sort_observations_set [of "List.map_filter (extract_observation float)
             (findall_child ''generic:Obs'' series_elem)" "sd_observations sd"]
    sort_observations_length [of "List.map_filter (extract_observation float)
             (findall_child ''generic:Obs'' series_elem)" "sd_observations sd"]
    sort_observations_sorted [of "List.map_filter (extract_observation float)
             (findall_child ''generic:Obs'' series_elem)" "sd_observations sd"]
    set_map_filter [of "extract_observation float" "findall_child ''generic:Obs'' series_elem"]
  by auto

lemma extract_series_key_metadata:
  "extract_series_key float now dataset_id constraints series_elem = Inr sd \<Longrightarrow>
   sd_metadata sd = extract_metadata constraints series_elem"
  by (auto simp add: extract_series_key_def ebind_eq_Inr Let_def)

text \<open>A series none of whose observations has both a time period key and a value is skipped.\<close>

lemma series_without_observations_skipped:
  assumes "\<forall>obs\<in>set (findall_child ''generic:Obs'' series_elem).
             obs_time_period obs = None \<or> obs_raw_value obs = None \<or> obs_raw_value obs = Some []"
  shows "process_one writable float now dataset_id constraints series_elem = None"
proof (cases "extract_series_key float now dataset_id constraints series_elem")
  case (Inl e)
  then show ?thesis by (simp add: process_one_def)
next
  case (Inr sd)
  have "set (sd_observations sd) = {}"
    using assms by (auto simp add: extract_series_key_obs(1) [OF Inr] extract_observation_Some)
  with Inr show ?thesis by (simp add: process_one_def)
qed

subsection \<open>File names\<close>

lemma process_one_Some:
  "process_one writable float now dataset_id constraints series_elem = Some (filename, sd) \<longleftrightarrow>
     extract_series_key float now dataset_id constraints series_elem = Inr sd
   \<and> sd_observations sd \<noteq> [] \<and> filename = series_filename dataset_id sd
   \<and> writable filename"
  by (auto simp add: process_one_def Let_def split: sum.splits)

lemma extract_series_key_clock:
  "extract_series_key float now' dataset_id constraints series_elem
   = map_sum id (\<lambda>sd. sd\<lparr>sd_dataset_info := (sd_dataset_info sd)\<lparr>i_generated_at := now'\<rparr>\<rparr>)
       (extract_series_key float now dataset_id constraints series_elem)"
  by (simp add: extract_series_key_def ebind_def Let_def split: sum.splits)

lemma process_one_clock:
  "map_option fst (process_one writable float now' dataset_id constraints series_elem)
   = map_option fst (process_one writable float now dataset_id constraints series_elem)"
proof (cases "extract_series_key float now dataset_id constraints series_elem")
  case (Inl e)
  then have "extract_series_key float now' dataset_id constraints series_elem = Inl e"
    by (simp add: extract_series_key_clock [of float now' dataset_id constraints series_elem now])
  with Inl show ?thesis
    by (simp add: process_one_def)
next
  case (Inr sd)
  then have "extract_series_key float now' dataset_id constraints series_elem
     = Inr (sd\<lparr>sd_dataset_info := (sd_dataset_info sd)\<lparr>i_generated_at := now'\<rparr>\<rparr>)"
    by (simp add: extract_series_key_clock [of float now' dataset_id constraints series_elem now])
  with Inr show ?thesis
    by (simp add: process_one_def series_filename_def Let_def)
qed

lemma process_series_clock:
  "map_sum id (map fst) (process_series writable fetch float clock' dataset_id constraints)
   = map_sum id (map fst) (process_series writable fetch float clock dataset_id constraints)"
proof (cases "fetch_series_data fetch dataset_id")
  case (Inl e)
  then show ?thesis by (simp add: process_series_def)
next
  case (Inr root)
  have "List.map_filter (\<lambda>x. map_option fst (case x of (i, series_elem) \<Rightarrow>
                 process_one writable float (clock' i) dataset_id constraints series_elem)) xs
      = List.map_filter (\<lambda>x. map_option fst (case x of (i, series_elem) \<Rightarrow>
                 process_one writable float (clock i) dataset_id constraints series_elem)) xs" for xs
  proof (rule map_filter_cong)
    fix x :: "nat \<times> xml"
    show "map_option fst (case x of (i, series_elem) \<Rightarrow>
                 process_one writable float (clock' i) dataset_id constraints series_elem)
        = map_option fst (case x of (i, series_elem) \<Rightarrow>
                 process_one writable float (clock i) dataset_id constraints series_elem)"
    proof (cases x)
      case (Pair i e)
      show ?thesis
        unfolding Pair prod.case
        by (rule process_one_clock)
    qed
  qed
  with Inr show ?thesis
    by (simp add: process_series_def Let_def map_fst_map_filter)
qed

lemmas mapping_eval = build_mapping_def get_structure_from_data_def
  get_dimension_codelist_refs_def get_codelist_values_def by_language_def
  findall_desc_child_def findall_desc_def findall_child_def attrib_get_def base_url_def
  xml_lang_def

lemmas overview_eval = build_constraints_overview_def get_dataflow_info_def
  get_available_constraints_def load_mapping_file_def build_dimension_def value_entry_def
  truthy_text_def List.map_filter_def mapping_json_def dim_mapping_json_def
  code_value_json_def lang_json_def findall_desc_child_def findall_desc_def
  findall_child_def attrib_get_def base_url_def xml_lang_def

subsection \<open>The two resolvers\<close>

lemma efold_total:
  "(\<And>x acc. f x acc = Inr (g x acc)) \<Longrightarrow> efold f xs acc = Inr (fold g xs acc)"
  by (induction xs arbitrary: acc) simp_all

lemma map_of_dict_set: "map_of (dict_set k v ps) k' = (if k' = k then Some v else map_of ps k')"
  by (induction ps) auto

lemma dict_set_keys: "fst ` set (dict_set k v ps) = insert k (fst ` set ps)"
  by (induction ps) auto

lemma distinct_dict_set: "distinct (map fst ps) \<Longrightarrow> distinct (map fst (dict_set k v ps))"
proof (induction ps)
  case Nil
  show ?case by simp
next
  case (Cons p ps)
  then have "distinct (map fst (dict_set k v ps))" by simp
  moreover have "fst ` set (dict_set k v ps) = insert k (fst ` set ps)" by (rule dict_set_keys)
  ultimately show ?case using Cons.prems by auto
qed

lemma map_of_fold_dict_set:
  "x \<in> set xs \<Longrightarrow> map_of (fold (\<lambda>x acc. dict_set x (g x) acc) xs acc) x = Some (g x)"
  by (induction xs arbitrary: acc rule: rev_induct) (auto simp add: map_of_dict_set)

lemma available_constraints_distinct:
  assumes "get_available_constraints fetch dataset_id = Inr available"
  shows "distinct (map fst available)"
proof -
  have "distinct (map fst (fold (\<lambda>key_value constraints.
                        case attrib_get key_value ''id'' of
                          None \<Rightarrow> constraints
                        | Some dim_id \<Rightarrow>
                            if dim_id \<noteq> [] then dict_set dim_id (h key_value) constraints
                            else constraints) kvs []))" for kvs and h :: "xml \<Rightarrow> string list"
    by (induction kvs rule: rev_induct) (auto simp add: distinct_dict_set split: option.splits)
  with assms show ?thesis
    by (auto simp add: get_available_constraints_def ebind_eq_Inr split: option.splits)
qed

lemma value_entry_mapping:
  "value_entry (case map_of (mp_dimensions m) dim_id of None \<Rightarrow> JObj [] | Some dm \<Rightarrow> dim_mapping_json dm) val
   = Inr (JObj [(''name'',
            case (case map_of (mp_dimensions m) dim_id of None \<Rightarrow> None | Some dm \<Rightarrow> map_of (dm_values dm) val) of
              None \<Rightarrow> JObj [(''default'', JStr val)]
            | Some cv \<Rightarrow> lang_json (cv_name cv))])"
  by (simp add: value_entry_def dim_mapping_json_def code_value_json_def map_of_map split: option.splits)

lemma map_of_map_keyed:
  "map_of (map (\<lambda>(k, v). (k, f k v)) xs) k = map_option (f k) (map_of xs k)"
  by (induction xs) auto

lemma build_dimension_mapping:
  "build_dimension (mapping_json m) dim_id vals
   = Inr \<lparr>d_id = dim_id,
          d_values = fold (\<lambda>val entries. dict_set val (label_of m dim_id val) entries) vals []\<rparr>"
proof -
  let ?dim_info = "case map_of (mp_dimensions m) dim_id of
                     None \<Rightarrow> JObj [] | Some dm \<Rightarrow> dim_mapping_json dm"
  have d: "py_get (mapping_json m) (Some ''dimensions'') (JObj [])
             = Inr (JObj (map (\<lambda>(dim_id, dm). (dim_id, dim_mapping_json dm)) (mp_dimensions m)))"
    by (simp add: mapping_json_def)
  have i: "py_get (JObj (map (\<lambda>(dim_id, dm). (dim_id, dim_mapping_json dm)) (mp_dimensions m)))
             (Some dim_id) (JObj []) = Inr ?dim_info"
    by (simp add: map_of_map split: option.splits)
  have v: "value_entry ?dim_info val = Inr (label_of m dim_id val)" for val
    unfolding label_of_def by (rule value_entry_mapping)
  have "efold (\<lambda>val entries. ebind (value_entry ?dim_info val)
                 (\<lambda>entry. Inr (dict_set val entry entries))) vals []
      = Inr (fold (\<lambda>val entries. dict_set val (label_of m dim_id val) entries) vals [])"
    by (rule efold_total) (simp add: v)
  then show ?thesis
    by (simp only: build_dimension_def d i ebind_Inr)
qed

lemma build_overview_mapping:
  assumes i: "get_dataflow_info fetch dataset_id = Inr info"
      and a: "get_available_constraints fetch dataset_id = Inr available"
      and f: "mappings (''mapping_'' @ dataset_id @ ''.json'') = Some (mapping_json m)"
  shows "build_constraints_overview fetch mappings now dataset_id
         = Inr \<lparr>ov_dataset_info = info, ov_generated_at = now,
                ov_dimensions = map (\<lambda>(dim_id, vals). (dim_id,
                    \<lparr>d_id = dim_id,
                     d_values = fold (\<lambda>val entries. dict_set val (label_of m dim_id val) entries) vals []\<rparr>))
                  available\<rparr>"
proof -
  let ?D = "\<lambda>p. \<lparr>d_id = fst p,
                 d_values = fold (\<lambda>val entries. dict_set val (label_of m (fst p) val) entries) (snd p) []\<rparr>"
  have l: "load_mapping_file mappings dataset_id = Inr (mapping_json m)"
    using f by (simp add: load_mapping_file_def)
  have "efold (\<lambda>(dim_id, vals) dims. ebind (build_dimension (mapping_json m) dim_id vals)
                 (\<lambda>d. Inr (dict_set dim_id d dims))) available []
      = Inr (fold (\<lambda>p dims. dict_set (fst p) (?D p) dims) available [])"
    by (rule efold_total) (simp add: build_dimension_mapping split_def)
  also have "fold (\<lambda>p dims. dict_set (fst p) (?D p) dims) available []
      = [] @ map (\<lambda>p. (fst p, ?D p)) available"
    by (rule fold_dict_set_distinct [OF available_constraints_distinct [OF a]]) simp
  finally have "efold (\<lambda>(dim_id, vals) dims. ebind (build_dimension (mapping_json m) dim_id vals)
                 (\<lambda>d. Inr (dict_set dim_id d dims))) available []
      = Inr (map (\<lambda>(dim_id, vals). (dim_id,
                    \<lparr>d_id = dim_id,
                     d_values = fold (\<lambda>val entries. dict_set val (label_of m dim_id val) entries) vals []\<rparr>))
                  available)"
    by (simp add: split_def)
  then show ?thesis
    by (simp only: build_constraints_overview_def i a l ebind_Inr)
qed

lemma codelist_refs_keys:
  "fst ` set (fold (\<lambda>dim codelist_refs.
                    case attrib_get dim ''id'' of
                      None \<Rightarrow> codelist_refs
                    | Some dim_id \<Rightarrow>
                        if dim_id = [] then codelist_refs
                        else (case first (findall_desc_child ''structure:Enumeration'' ''Ref'' dim) of
                                None \<Rightarrow> codelist_refs
                              | Some enum_ref \<Rightarrow> dict_set dim_id (mk enum_ref) codelist_refs))
              dims [])
   = {dim_id. \<exists>dim\<in>set dims. attrib_get dim ''id'' = Some dim_id \<and> dim_id \<noteq> []
        \<and> first (findall_desc_child ''structure:Enumeration'' ''Ref'' dim) \<noteq> None}"
  by (induction dims rule: rev_induct) (auto simp add: dict_set_keys split: option.splits)

lemma code_values_keys:
  "fst ` set (fold (\<lambda>code vals.
                      case attrib_get code ''id'' of
                        None \<Rightarrow> vals
                      | Some code_id \<Rightarrow>
                          if code_id = [] then vals
                          else dict_set code_id (mk code) vals)
                codes [])
   = {code_id. \<exists>code\<in>set codes. attrib_get code ''id'' = Some code_id \<and> code_id \<noteq> []}"
  by (induction codes rule: rev_induct) (auto simp add: dict_set_keys split: option.splits)

subsection \<open>The metadata dict of a series key\<close>

text \<open>
  A dict filled by assignments in a loop holds each key at the place of its first
  assignment, with the value of its last one.
\<close>

lemma fold_snoc: "fold f (xs @ [x]) acc = f x (fold f xs acc)"
  by simp

lemma map_fst_dict_set:
  "map fst (dict_set k v ps) = (if k \<in> set (map fst ps) then map fst ps else map fst ps @ [k])"
  by (induction ps) auto

lemma first_occurrences_snoc:
  "rev (remdups (rev (ks @ [k])))
     = (if k \<in> set ks then rev (remdups (rev ks)) else rev (remdups (rev ks)) @ [k])"
  by simp

lemma keys_fold_dict_set:
  "map fst (fold (\<lambda>x acc. dict_set (f x) (g x) acc) xs []) = rev (remdups (rev (map f xs)))"
proof (induction xs rule: rev_induct)
  case Nil
  show ?case by simp
next
  case (snoc x xs)
  have s: "set (map fst (fold (\<lambda>x acc. dict_set (f x) (g x) acc) xs [])) = set (map f xs)"
    by (simp only: snoc.IH set_rev set_remdups)
  show ?case
    by (simp only: fold_snoc map_fst_dict_set snoc.IH map_append list.map first_occurrences_snoc
          set_rev set_remdups)
qed

lemma map_of_fold_dict_set_rev:
  "map_of (fold (\<lambda>x acc. dict_set (f x) (g x) acc) xs []) = map_of (rev (map (\<lambda>x. (f x, g x)) xs))"
proof (induction xs rule: rev_induct)
  case Nil
  show ?case by simp
next
  case (snoc x xs)
  show ?case
    by (rule ext) (simp add: map_of_dict_set snoc.IH)
qed

lemma assoc_list_from_keys:
  "distinct (map fst ps) \<Longrightarrow>
   map (\<lambda>k. (k, case map_of ps k of None \<Rightarrow> None | Some c \<Rightarrow> c)) (map fst ps) = ps"
proof (induction ps)
  case Nil
  show ?case by simp
next
  case (Cons p ps)
  have "map (\<lambda>k. (k, case map_of (p # ps) k of None \<Rightarrow> None | Some c \<Rightarrow> c)) (map fst ps)
      = map (\<lambda>k. (k, case map_of ps k of None \<Rightarrow> None | Some c \<Rightarrow> c)) (map fst ps)"
  proof (rule map_cong)
    show "map fst ps = map fst ps" by (rule refl)
  next
    fix x
    assume "x \<in> set (map fst ps)"
    moreover from Cons.prems have "fst p \<notin> set (map fst ps)" by simp
    ultimately have "x \<noteq> fst p" by (metis (full_types))
    then have "map_of (p # ps) x = map_of ps x" by (cases p) simp
    then show "(x, case map_of (p # ps) x of None \<Rightarrow> None | Some c \<Rightarrow> c)
             = (x, case map_of ps x of None \<Rightarrow> None | Some c \<Rightarrow> c)"
      by (simp only:)
  qed
  with Cons show ?case by (cases p) simp
qed

lemma extract_metadata_fold:
  "extract_metadata constraints series_elem
   = fold (\<lambda>v md. dict_set (attrib_get v ''id'')
                      \<lparr>m_code = attrib_get v ''value'',
                       m_description = get_value_description constraints (attrib_get v ''id'')
                                         (attrib_get v ''value'')\<rparr> md)
       (case first (findall_child ''generic:SeriesKey'' series_elem) of
          None \<Rightarrow> [] | Some series_key \<Rightarrow> findall_desc ''generic:Value'' series_key) []"
  by (cases "first (findall_child ''generic:SeriesKey'' series_elem)")
     (simp_all add: extract_metadata_def Let_def)

lemma extract_metadata_pairs:
  assumes k: "kvs = map (\<lambda>v. (attrib_get v ''id'', attrib_get v ''value''))
                  (case first (findall_child ''generic:SeriesKey'' series_elem) of
                     None \<Rightarrow> [] | Some series_key \<Rightarrow> findall_desc ''generic:Value'' series_key)"
  shows "map (\<lambda>(concept, info). (concept, m_code info)) (extract_metadata constraints series_elem)
         = map (\<lambda>k. (k, case map_of (rev kvs) k of None \<Rightarrow> None | Some c \<Rightarrow> c))
             (rev (remdups (rev (map fst kvs))))"
proof -
  let ?vs = "case first (findall_child ''generic:SeriesKey'' series_elem) of
               None \<Rightarrow> [] | Some series_key \<Rightarrow> findall_desc ''generic:Value'' series_key"
  let ?f = "\<lambda>v. attrib_get v ''id''"
  let ?g = "\<lambda>v. \<lparr>m_code = attrib_get v ''value'',
             m_description = get_value_description constraints (attrib_get v ''id'')
                               (attrib_get v ''value'')\<rparr>"
  let ?E = "fold (\<lambda>v md. dict_set (?f v) (?g v) md) ?vs []"
  let ?P = "map (\<lambda>(concept, info). (concept, m_code info)) ?E"
  have keys: "map fst ?P = rev (remdups (rev (map fst kvs)))"
  proof -
    have "map fst ?P = map fst ?E" by (simp add: split_def comp_def)
    also have "\<dots> = rev (remdups (rev (map ?f ?vs)))" by (rule keys_fold_dict_set)
    also have "map ?f ?vs = map fst kvs" by (simp add: k comp_def)
    finally show ?thesis .
  qed
  have d: "distinct (map fst ?P)" by (simp only: keys distinct_rev distinct_remdups)
  have "map_of ?P = map_option m_code \<circ> map_of ?E" by (rule map_of_map)
  also have "map_of ?E = map_of (rev (map (\<lambda>x. (?f x, ?g x)) ?vs))"
    by (rule map_of_fold_dict_set_rev)
  also have "map_option m_code \<circ> map_of (rev (map (\<lambda>x. (?f x, ?g x)) ?vs))
      = map_of (map (\<lambda>(concept, info). (concept, m_code info)) (rev (map (\<lambda>x. (?f x, ?g x)) ?vs)))"
    by (rule map_of_map [symmetric])
  also have "map (\<lambda>(concept, info). (concept, m_code info)) (rev (map (\<lambda>x. (?f x, ?g x)) ?vs))
      = rev kvs"
    by (simp add: k rev_map comp_def)
  finally have m: "map_of ?P = map_of (rev kvs)" .
  have "?P = map (\<lambda>k. (k, case map_of ?P k of None \<Rightarrow> None | Some c \<Rightarrow> c)) (map fst ?P)"
    by (rule assoc_list_from_keys [OF d, symmetric])
  then have "?P = map (\<lambda>k. (k, case map_of (rev kvs) k of None \<Rightarrow> None | Some c \<Rightarrow> c))
             (rev (remdups (rev (map fst kvs))))"
    by (simp only: m keys)
  then show ?thesis by (simp only: extract_metadata_fold)
qed

lemma series_filename_key:
  assumes e: "extract_series_key float now dataset_id constraints series_elem = Inr sd"
      and k: "kvs = map (\<lambda>v. (attrib_get v ''id'', attrib_get v ''value''))
                  (case first (findall_child ''generic:SeriesKey'' series_elem) of
                     None \<Rightarrow> [] | Some series_key \<Rightarrow> findall_desc ''generic:Value'' series_key)"
  shows "series_filename dataset_id sd
         = ''series_'' @ join ''_'' ((''dataset_'' @ dataset_id) #
             map (\<lambda>k. py_str k @ ''-'' @ py_str (case map_of (rev kvs) k of None \<Rightarrow> None | Some c \<Rightarrow> c))
               (rev (remdups (rev (map fst kvs))))) @ ''.json''"
proof -
  have "map (\<lambda>(c, k). py_str c @ ''-'' @ py_str k)
          (map (\<lambda>(concept, info). (concept, m_code info)) (sd_metadata sd))
      = map (\<lambda>(c, k). py_str c @ ''-'' @ py_str k)
          (map (\<lambda>k. (k, case map_of (rev kvs) k of None \<Rightarrow> None | Some c \<Rightarrow> c))
             (rev (remdups (rev (map fst kvs)))))"
    by (simp only: extract_series_key_metadata [OF e] extract_metadata_pairs [OF k])
  then have "map (\<lambda>(concept, info). py_str concept @ ''-'' @ py_str (m_code info)) (sd_metadata sd)
      = map (\<lambda>k. py_str k @ ''-'' @ py_str (case map_of (rev kvs) k of None \<Rightarrow> None | Some c \<Rightarrow> c))
             (rev (remdups (rev (map fst kvs))))"
    by (simp add: comp_def split_def)
  then show ?thesis by (simp add: series_filename_def split_def)
qed

lemma process_series_member:
  assumes f: "fetch_series_data fetch dataset_id = Inr droot"
      and i: "i < length (findall_desc ''generic:Series'' droot)"
      and p: "process_one writable float (clock (Suc i)) dataset_id constraints
                (findall_desc ''generic:Series'' droot ! i) = Some written"
  shows "\<exists>files. process_series writable fetch float clock dataset_id constraints = Inr files
           \<and> written \<in> set files"
proof -
  let ?xs = "findall_desc ''generic:Series'' droot"
  let ?body = "\<lambda>(i, series_elem). process_one writable float (clock i) dataset_id constraints series_elem"
  have "(Suc i, ?xs ! i) \<in> set (enumerate 1 ?xs)"
    using i by (simp add: in_set_enumerate_eq)
  moreover have "?body (Suc i, ?xs ! i) = Some written"
    using p by simp
  ultimately have "written \<in> set (List.map_filter ?body (enumerate 1 ?xs))"
    unfolding set_map_filter by blast
  moreover have "process_series writable fetch float clock dataset_id constraints
      = Inr (List.map_filter ?body (enumerate 1 ?xs))"
    using f by (simp add: process_series_def Let_def)
  ultimately show ?thesis by blast
qed

section \<open>Properties of the Series Extractor\<close>

text \<open>
  C2. Constructing the extractor for dataset \<open>a\<close> when the constraints file found for \<open>a\<close>
  declares another dataset id \<open>b\<close> raises the \<^verbatim>\<open>ValueError\<close> of
  \<^verbatim>\<open>validate_constraints\<close> (the integrity error), and the run ends with that error
  before any series is fetched or written.
\<close>

theorem mismatched_constraints_raise:
  assumes "files (''constraints_'' @ a @ ''.json'') = Some doc"
      and "py_getitem doc (Some ''dataset_info'') = Inr info"
      and "py_getitem info (Some ''id'') = Inr (JStr b)"
      and "a \<noteq> b"
  shows "init_extractor files a = Inl ValueError
       \<and> run_extractor files writable fetch float clock a = Inl ValueError"
  using assms
  by (simp add: run_extractor_def init_extractor_def find_constraints_file_def
      load_constraints_def validate_constraints_def)

theorem mismatched_constraints_raise_witness:
  "ex_files ''constraints_A.json'' \<noteq> None
   \<and> init_extractor ex_files ''A'' = Inl ValueError
   \<and> run_extractor ex_files ex_writable (ex_fetch [ex_series]) float_sample (\<lambda>i. []) ''A'' = Inl ValueError"
proof -
  have f: "ex_files (''constraints_'' @ ''A'' @ ''.json'')
             = Some (JObj [(''dataset_info'', ex_dataset_info ''B''), (''dimensions'', JObj ex_dims)])"
    by (simp add: ex_files_def)
  have i: "py_getitem (JObj [(''dataset_info'', ex_dataset_info ''B''), (''dimensions'', JObj ex_dims)])
             (Some ''dataset_info'') = Inr (ex_dataset_info ''B'')"
    by simp
  have d: "py_getitem (ex_dataset_info ''B'') (Some ''id'') = Inr (JStr ''B'')"
    by (simp add: ex_dataset_info_def)
  have n: "''A'' \<noteq> ''B''" by simp
  from mismatched_constraints_raise [of ex_files "''A''" _ "ex_dataset_info ''B''" "''B''"
      ex_writable "ex_fetch [ex_series]" float_sample "\<lambda>i. []", OF f i d n] f
  show ?thesis by simp
qed

text \<open>
  C1, as the code has it. When the constraints hold a name dict for the dimension and the
  code, the label is the \<open>en\<close> entry if that is truthy (present and not empty), else the
  \<open>it\<close> entry if that is truthy, else the \<open>default\<close> entry if there is one, else the raw
  code. An unknown dimension and an unknown code give the raw code. The function is total:
  every error of the lookup ends in the raw code.
\<close>

theorem label_fallback_order:
  "(py_getitem constraints (Some ''dimensions'') = Inr (JObj dims)
      \<and> dict_lookup dims concept = Some dimension_info
      \<and> py_getitem dimension_info (Some ''values'') = Inr (JObj vals)
      \<and> dict_lookup vals code = Some (JObj entry)
      \<and> map_of entry ''name'' = Some (JObj names)
    \<longrightarrow> (\<forall>en. map_of names ''en'' = Some en \<and> truthy en \<longrightarrow>
            get_value_description constraints concept code = en)
       \<and> (\<forall>it. (\<forall>en. map_of names ''en'' = Some en \<longrightarrow> \<not> truthy en)
              \<and> map_of names ''it'' = Some it \<and> truthy it \<longrightarrow>
            get_value_description constraints concept code = it)
       \<and> (\<forall>d. (\<forall>en. map_of names ''en'' = Some en \<longrightarrow> \<not> truthy en)
              \<and> (\<forall>it. map_of names ''it'' = Some it \<longrightarrow> \<not> truthy it)
              \<and> map_of names ''default'' = Some d \<longrightarrow>
            get_value_description constraints concept code = d)
       \<and> ((\<forall>en. map_of names ''en'' = Some en \<longrightarrow> \<not> truthy en)
              \<and> (\<forall>it. map_of names ''it'' = Some it \<longrightarrow> \<not> truthy it)
              \<and> map_of names ''default'' = None \<longrightarrow>
            get_value_description constraints concept code = opt_json code))
   \<and> (py_getitem constraints (Some ''dimensions'') = Inr (JObj dims)
      \<and> dict_lookup dims concept = None
    \<longrightarrow> get_value_description constraints concept code = opt_json code)
   \<and> (py_getitem constraints (Some ''dimensions'') = Inr (JObj dims)
      \<and> dict_lookup dims concept = Some dimension_info
      \<and> py_getitem dimension_info (Some ''values'') = Inr (JObj vals)
      \<and> dict_lookup vals code = None
    \<longrightarrow> get_value_description constraints concept code = opt_json code)
   \<and> (\<forall>e. value_description_body constraints concept code = Inl e \<longrightarrow>
         get_value_description constraints concept code = opt_json code)"
proof (intro conjI impI allI)
  assume "py_getitem constraints (Some ''dimensions'') = Inr (JObj dims)
      \<and> dict_lookup dims concept = Some dimension_info
      \<and> py_getitem dimension_info (Some ''values'') = Inr (JObj vals)
      \<and> dict_lookup vals code = Some (JObj entry)
      \<and> map_of entry ''name'' = Some (JObj names)"
  then have b: "value_description_body constraints concept code =
      ebind (py_get (JObj names) (Some ''en'') JNull) (\<lambda>en.
        if truthy en then Inr en
        else ebind (py_get (JObj names) (Some ''it'') JNull) (\<lambda>it.
          if truthy it then Inr it
          else py_get (JObj names) (Some ''default'') (opt_json code)))"
    by (cases concept) (simp_all add: value_description_body_def)
  {
    fix en
    assume "map_of names ''en'' = Some en \<and> truthy en"
    then show "get_value_description constraints concept code = en"
      by (simp add: get_value_description_def b)
  next
    fix it
    assume "(\<forall>en. map_of names ''en'' = Some en \<longrightarrow> \<not> truthy en)
              \<and> map_of names ''it'' = Some it \<and> truthy it"
    then show "get_value_description constraints concept code = it"
      by (cases "map_of names ''en''") (simp_all add: get_value_description_def b)
  next
    fix d
    assume "(\<forall>en. map_of names ''en'' = Some en \<longrightarrow> \<not> truthy en)
              \<and> (\<forall>it. map_of names ''it'' = Some it \<longrightarrow> \<not> truthy it)
              \<and> map_of names ''default'' = Some d"
    then show "get_value_description constraints concept code = d"
      by (cases "map_of names ''en''"; cases "map_of names ''it''")
         (simp_all add: get_value_description_def b)
  next
    assume "(\<forall>en. map_of names ''en'' = Some en \<longrightarrow> \<not> truthy en)
              \<and> (\<forall>it. map_of names ''it'' = Some it \<longrightarrow> \<not> truthy it)
              \<and> map_of names ''default'' = None"
    then show "get_value_description constraints concept code = opt_json code"
      by (cases "map_of names ''en''"; cases "map_of names ''it''")
         (simp_all add: get_value_description_def b)
  }
next
  assume "py_getitem constraints (Some ''dimensions'') = Inr (JObj dims)
      \<and> dict_lookup dims concept = None"
  then show "get_value_description constraints concept code = opt_json code"
    by (simp add: get_value_description_def value_description_body_def)
next
  assume "py_getitem constraints (Some ''dimensions'') = Inr (JObj dims)
      \<and> dict_lookup dims concept = Some dimension_info
      \<and> py_getitem dimension_info (Some ''values'') = Inr (JObj vals)
      \<and> dict_lookup vals code = None"
  then show "get_value_description constraints concept code = opt_json code"
    by (cases concept) (simp_all add: get_value_description_def value_description_body_def)
next
  fix e
  assume "value_description_body constraints concept code = Inl e"
  then show "get_value_description constraints concept code = opt_json code"
    by (simp add: get_value_description_def)
qed

theorem label_fallback_order_witness:
  "get_value_description ex_constraints (Some ''FREQ'') (Some ''A'') = JStr ''annual''
   \<and> get_value_description ex_constraints (Some ''SEX'') (Some ''F'') = JStr ''F''
   \<and> get_value_description ex_constraints (Some ''FREQ'') (Some ''M'') = JStr ''M''
   \<and> get_value_description JNull (Some ''FREQ'') (Some ''A'') = JStr ''A''"
proof -
  have 1: "py_getitem ex_constraints (Some ''dimensions'') = Inr (JObj ex_dims)"
    by (simp add: ex_constraints_def)
  have 2: "dict_lookup ex_dims (Some ''FREQ'') = Some ex_freq"
    by (simp add: ex_dims_def)
  have 3: "py_getitem ex_freq (Some ''values'') = Inr (JObj ex_freq_values)"
    by (simp add: ex_freq_def)
  have 4: "dict_lookup ex_freq_values (Some ''A'') = Some (JObj [(''name'', JObj ex_names_A)])"
    by (simp add: ex_freq_values_def)
  have 5: "map_of [(''name'', JObj ex_names_A)] ''name'' = Some (JObj ex_names_A)"
    by simp
  have 6: "map_of ex_names_A ''en'' = Some (JStr ''annual'') \<and> truthy (JStr ''annual'')"
    by (simp add: ex_names_A_def)
  have 7: "dict_lookup ex_dims (Some ''SEX'') = None"
    by (simp add: ex_dims_def)
  have 8: "dict_lookup ex_freq_values (Some ''M'') = None"
    by (simp add: ex_freq_values_def)
  have 9: "value_description_body JNull (Some ''FREQ'') (Some ''A'') = Inl TypeError"
    by (simp add: value_description_body_def)
  note a = label_fallback_order [THEN conjunct1, THEN mp,
      OF conjI [OF 1 conjI [OF 2 conjI [OF 3 conjI [OF 4 5]]]],
      THEN conjunct1, THEN spec, THEN mp, OF 6]
  note b = label_fallback_order [THEN conjunct2, THEN conjunct1, THEN mp, OF conjI [OF 1 7]]
  note c = label_fallback_order [THEN conjunct2, THEN conjunct2, THEN conjunct1, THEN mp,
      OF conjI [OF 1 conjI [OF 2 conjI [OF 3 8]]]]
  note d = label_fallback_order [THEN conjunct2, THEN conjunct2, THEN conjunct2, THEN spec,
      THEN mp, OF 9]
  from a b c d show ?thesis by simp
qed

text \<open>
  C1 as stated fails twice. For \<open>FREQ = Q\<close> the names hold both an \<open>en\<close> and an \<open>it\<close>
  entry, the \<open>en\<close> one being the empty string, and the label is the \<open>it\<close> name. For
  \<open>ITTER107 = IT\<close> the names hold neither \<open>en\<close> nor \<open>it\<close> but a \<open>default\<close> entry,
  and the label is that entry, not the raw code.
\<close>

theorem label_fallback_counterexample:
  "map_of ex_names_Q ''en'' = Some (JStr []) \<and> map_of ex_names_Q ''it'' = Some (JStr ''trimestrale'')
   \<and> get_value_description ex_constraints (Some ''FREQ'') (Some ''Q'') = JStr ''trimestrale''
   \<and> map_of ex_names_IT ''en'' = None \<and> map_of ex_names_IT ''it'' = None
   \<and> get_value_description ex_constraints (Some ''ITTER107'') (Some ''IT'') = JStr ''Italia''
   \<and> get_value_description ex_constraints (Some ''ITTER107'') (Some ''IT'') \<noteq> JStr ''IT''"
  by (simp add: ex_defs get_value_description_def value_description_body_def)

text \<open>
  C3 at the failing input: a series whose one observation has a \<^verbatim>\<open>TIME_PERIOD\<close>
  dimension element without a \<^verbatim>\<open>value\<close> attribute. The observation is appended with the
  time period \<^verbatim>\<open>None\<close>, a list of one element is sorted without a comparison, and the
  record is returned with an observation that has no time period.
\<close>

theorem missing_time_period_kept:
  "map_sum id sd_observations
     (extract_series_key float_sample ''t'' ''D'' ex_constraints ex_series_no_period)
   = Inr [\<lparr>o_time_period = None, o_value = Parsed (21 / 2)\<rparr>]"
  by (simp add: ex_defs eval_defs)

text \<open>
  C4 at the same input: the observation without a time period is not dropped, so the
  series is not empty and its record is written.
\<close>

theorem missing_time_period_persisted:
  "map_sum id (map (\<lambda>(filename, series_data). (filename, sd_observations series_data)))
     (process_series ex_writable (ex_fetch [ex_series_no_period]) float_sample (\<lambda>i. ''t'') ''D'' ex_constraints)
   = Inr [(''series_dataset_D_FREQ-A_ITTER107-IT.json'',
           [\<lparr>o_time_period = None, o_value = Parsed (21 / 2)\<rparr>])]"
  by (simp add: ex_defs eval_defs)

text \<open>
  C5. An observation with a time period key and a non-empty value text is kept whether or
  not the text parses: its value is the parsed number when \<^verbatim>\<open>float\<close> accepts the text
  and the text itself otherwise. Every observation of a returned record arises this way.
\<close>

theorem observation_value_parsed_or_raw:
  "(obs_time_period obs = Some t \<and> obs_raw_value obs = Some val \<and> val \<noteq> [] \<longrightarrow>
      (\<exists>ob. extract_observation float obs = Some ob \<and> o_time_period ob = t
         \<and> (\<forall>x. float val = Some x \<longrightarrow> o_value ob = Parsed x)
         \<and> (float val = None \<longrightarrow> o_value ob = Raw val)))
   \<and> (extract_series_key float now dataset_id constraints series_elem = Inr sd
        \<and> kept \<in> set (sd_observations sd) \<longrightarrow>
      (\<exists>obs\<in>set (findall_child ''generic:Obs'' series_elem). \<exists>val.
          obs_raw_value obs = Some val \<and> val \<noteq> []
        \<and> (\<forall>x. float val = Some x \<longrightarrow> o_value kept = Parsed x)
        \<and> (float val = None \<longrightarrow> o_value kept = Raw val)))"
proof (intro conjI impI)
  assume "obs_time_period obs = Some t \<and> obs_raw_value obs = Some val \<and> val \<noteq> []"
  then show "\<exists>ob. extract_observation float obs = Some ob \<and> o_time_period ob = t
         \<and> (\<forall>x. float val = Some x \<longrightarrow> o_value ob = Parsed x)
         \<and> (float val = None \<longrightarrow> o_value ob = Raw val)"
    by (simp add: extract_observation_Some store_value_def)
next
  assume h: "extract_series_key float now dataset_id constraints series_elem = Inr sd
        \<and> kept \<in> set (sd_observations sd)"
  then obtain obs where o: "obs \<in> set (findall_child ''generic:Obs'' series_elem)"
      and e: "extract_observation float obs = Some kept"
    using extract_series_key_obs(1) [of float now dataset_id constraints series_elem sd] by auto
  from e obtain t val where "obs_raw_value obs = Some val" "val \<noteq> []"
      "kept = \<lparr>o_time_period = t, o_value = store_value float val\<rparr>"
    by (auto simp add: extract_observation_Some)
  with o show "\<exists>obs\<in>set (findall_child ''generic:Obs'' series_elem). \<exists>val.
          obs_raw_value obs = Some val \<and> val \<noteq> []
        \<and> (\<forall>x. float val = Some x \<longrightarrow> o_value kept = Parsed x)
        \<and> (float val = None \<longrightarrow> o_value kept = Raw val)"
    by (intro bexI [of _ obs] exI [of _ val]) (simp_all add: store_value_def)
qed

theorem observation_value_parsed_or_raw_witness:
  "extract_observation float_sample (ex_obs ''2019'' ''10.5'')
     = Some \<lparr>o_time_period = Some ''2019'', o_value = Parsed (21 / 2)\<rparr>
   \<and> extract_observation float_sample (ex_obs ''2019'' ''n.d.'')
     = Some \<lparr>o_time_period = Some ''2019'', o_value = Raw ''n.d.''\<rparr>
   \<and> map_sum id sd_observations
       (extract_series_key float_sample ''t'' ''D'' ex_constraints ex_series)
     = Inr [\<lparr>o_time_period = Some ''2018'', o_value = Parsed (91 / 10)\<rparr>,
            \<lparr>o_time_period = Some ''2019'', o_value = Parsed (21 / 2)\<rparr>]"
proof -
  have t: "obs_time_period (ex_obs ''2019'' v) = Some (Some ''2019'')" for v
    by (simp add: obs_time_period_def ex_obs_def findall_child_def attrib_get_def)
  have r: "obs_raw_value (ex_obs ''2019'' v) = Some v" for v
    by (simp add: obs_raw_value_def ex_obs_def findall_child_def attrib_get_def)
  have p: "float_sample ''10.5'' = Some (21 / 2)" and q: "float_sample ''n.d.'' = None"
    by (simp_all add: float_sample_def)
  have n: "''10.5'' \<noteq> []" "''n.d.'' \<noteq> []" by simp_all
  note a = observation_value_parsed_or_raw [of "ex_obs ''2019'' ''10.5''" "Some ''2019''" "''10.5''"
      float_sample, THEN conjunct1, THEN mp, OF conjI [OF t conjI [OF r n(1)]]]
  note b = observation_value_parsed_or_raw [of "ex_obs ''2019'' ''n.d.''" "Some ''2019''" "''n.d.''"
      float_sample, THEN conjunct1, THEN mp, OF conjI [OF t conjI [OF r n(2)]]]
  from a have 1: "extract_observation float_sample (ex_obs ''2019'' ''10.5'')
     = Some \<lparr>o_time_period = Some ''2019'', o_value = Parsed (21 / 2)\<rparr>"
    unfolding p by (elim exE conjE) (simp del: not_None_eq)
  from b have 2: "extract_observation float_sample (ex_obs ''2019'' ''n.d.'')
     = Some \<lparr>o_time_period = Some ''2019'', o_value = Raw ''n.d.''\<rparr>"
    unfolding q by (elim exE conjE) (simp del: not_None_eq)
  obtain sd where e: "extract_series_key float_sample ''t'' ''D'' ex_constraints ex_series = Inr sd"
      and o: "sd_observations sd = [\<lparr>o_time_period = Some ''2018'', o_value = Parsed (91 / 10)\<rparr>,
                                    \<lparr>o_time_period = Some ''2019'', o_value = Parsed (21 / 2)\<rparr>]"
    by (simp add: ex_defs eval_defs)
  from o have k: "\<lparr>o_time_period = Some ''2018'', o_value = Parsed (91 / 10)\<rparr> \<in> set (sd_observations sd)"
    by simp
  note c = observation_value_parsed_or_raw [THEN conjunct2, THEN mp, OF conjI [OF e k]]
  from c e o have 3: "map_sum id sd_observations
       (extract_series_key float_sample ''t'' ''D'' ex_constraints ex_series)
     = Inr [\<lparr>o_time_period = Some ''2018'', o_value = Parsed (91 / 10)\<rparr>,
            \<lparr>o_time_period = Some ''2019'', o_value = Parsed (21 / 2)\<rparr>]"
    by simp
  from 1 2 3 show ?thesis by (intro conjI)
qed

text \<open>
  C10. A \<^verbatim>\<open>value\<close> attribute equal to the empty string is falsy, so the \<^verbatim>\<open>"value"\<close> key
  is not set and the observation is not appended: a returned record has at most as many
  observations as the series has \<^verbatim>\<open>generic:Obs\<close> elements whose value text is not empty.
\<close>

theorem empty_value_excluded:
  "(obs_raw_value obs = Some [] \<longrightarrow> extract_observation float obs = None)
   \<and> (extract_series_key float now dataset_id constraints series_elem = Inr sd \<longrightarrow>
        length (sd_observations sd)
          \<le> length (filter (\<lambda>obs. obs_raw_value obs \<noteq> Some [])
                      (findall_child ''generic:Obs'' series_elem)))"
proof (intro conjI impI)
  assume "obs_raw_value obs = Some []"
  then show "extract_observation float obs = None"
    by (simp add: extract_observation_def split: option.splits)
next
  assume h: "extract_series_key float now dataset_id constraints series_elem = Inr sd"
  have "length (List.map_filter (extract_observation float) (findall_child ''generic:Obs'' series_elem))
          \<le> length (filter (\<lambda>obs. obs_raw_value obs \<noteq> Some [])
                      (findall_child ''generic:Obs'' series_elem))"
    by (rule length_map_filter_le) (auto simp add: extract_observation_Some)
  then show "length (sd_observations sd)
          \<le> length (filter (\<lambda>obs. obs_raw_value obs \<noteq> Some [])
                      (findall_child ''generic:Obs'' series_elem))"
    by (simp add: extract_series_key_obs(2) [OF h])
qed

theorem empty_value_excluded_witness:
  "obs_raw_value (ex_obs ''2019'' []) = Some []
   \<and> extract_observation float_sample (ex_obs ''2019'' []) = None
   \<and> map_sum id sd_observations
       (extract_series_key float_sample ''t'' ''D'' ex_constraints ex_series_empty_value)
     = Inr [\<lparr>o_time_period = Some ''2018'', o_value = Parsed (91 / 10)\<rparr>]"
proof -
  have r: "obs_raw_value (ex_obs ''2019'' []) = Some []"
    by (simp add: obs_raw_value_def ex_obs_def findall_child_def attrib_get_def)
  obtain sd where e: "extract_series_key float_sample ''t'' ''D'' ex_constraints
                        ex_series_empty_value = Inr sd"
      and o: "sd_observations sd = [\<lparr>o_time_period = Some ''2018'', o_value = Parsed (91 / 10)\<rparr>]"
    by (simp add: ex_defs eval_defs)
  note a = empty_value_excluded [THEN conjunct1, THEN mp, OF r]
  note b = empty_value_excluded [THEN conjunct2, THEN mp, OF e]
  from a [of float_sample] b r e o show ?thesis by simp
qed

text \<open>
  C9, as the code has it. A kept series (extracted without error, with at least one
  observation) is written when its file can be opened for writing, and is logged and
  skipped otherwise. Its file name is made of the dataset id and of the (dimension, code)
  pairs of the series key, each dimension id at the place where the key lists it first and
  with the code that the key lists for it last; nothing sorts the pairs. Every file that
  the loop body writes is among the files of the run, and the names do not depend on the
  clock: a second run on the same response, with the same constraints and the same output
  directory, writes the same file names in the same order.
\<close>

theorem filename_from_key_order:
  "(extract_series_key float now dataset_id constraints series_elem = Inr sd
      \<and> sd_observations sd \<noteq> []
      \<and> kvs = map (\<lambda>v. (attrib_get v ''id'', attrib_get v ''value''))
                (case first (findall_child ''generic:SeriesKey'' series_elem) of
                   None \<Rightarrow> [] | Some series_key \<Rightarrow> findall_desc ''generic:Value'' series_key)
      \<and> filename = ''series_'' @ join ''_'' ((''dataset_'' @ dataset_id) #
           map (\<lambda>k. py_str k @ ''-'' @ py_str (case map_of (rev kvs) k of None \<Rightarrow> None | Some c \<Rightarrow> c))
             (rev (remdups (rev (map fst kvs))))) @ ''.json''
    \<longrightarrow> (writable filename \<longrightarrow>
           process_one writable float now dataset_id constraints series_elem = Some (filename, sd))
       \<and> (\<not> writable filename \<longrightarrow>
           process_one writable float now dataset_id constraints series_elem = None))
   \<and> (fetch_series_data fetch dataset_id = Inr droot
      \<and> i < length (findall_desc ''generic:Series'' droot)
      \<and> process_one writable float (clock (Suc i)) dataset_id constraints
            (findall_desc ''generic:Series'' droot ! i) = Some written
    \<longrightarrow> (\<exists>files. process_series writable fetch float clock dataset_id constraints = Inr files
           \<and> written \<in> set files))
   \<and> map_sum id (map fst) (process_series writable fetch float clock' dataset_id constraints)
     = map_sum id (map fst) (process_series writable fetch float clock dataset_id constraints)"
proof (intro conjI impI)
  assume h: "extract_series_key float now dataset_id constraints series_elem = Inr sd
      \<and> sd_observations sd \<noteq> []
      \<and> kvs = map (\<lambda>v. (attrib_get v ''id'', attrib_get v ''value''))
                (case first (findall_child ''generic:SeriesKey'' series_elem) of
                   None \<Rightarrow> [] | Some series_key \<Rightarrow> findall_desc ''generic:Value'' series_key)
      \<and> filename = ''series_'' @ join ''_'' ((''dataset_'' @ dataset_id) #
           map (\<lambda>k. py_str k @ ''-'' @ py_str (case map_of (rev kvs) k of None \<Rightarrow> None | Some c \<Rightarrow> c))
             (rev (remdups (rev (map fst kvs))))) @ ''.json''"
  then have e: "extract_series_key float now dataset_id constraints series_elem = Inr sd"
      and o: "sd_observations sd \<noteq> []"
      and k: "kvs = map (\<lambda>v. (attrib_get v ''id'', attrib_get v ''value''))
                (case first (findall_child ''generic:SeriesKey'' series_elem) of
                   None \<Rightarrow> [] | Some series_key \<Rightarrow> findall_desc ''generic:Value'' series_key)"
    by simp_all
  from h have n: "series_filename dataset_id sd = filename"
    by (simp only: series_filename_key [OF e k])
  {
    assume "writable filename"
    with e o n show "process_one writable float now dataset_id constraints series_elem
        = Some (filename, sd)"
      by (simp add: process_one_def Let_def)
  next
    assume "\<not> writable filename"
    with e o n show "process_one writable float now dataset_id constraints series_elem = None"
      by (simp add: process_one_def Let_def)
  }
next
  assume "fetch_series_data fetch dataset_id = Inr droot
      \<and> i < length (findall_desc ''generic:Series'' droot)
      \<and> process_one writable float (clock (Suc i)) dataset_id constraints
            (findall_desc ''generic:Series'' droot ! i) = Some written"
  then show "\<exists>files. process_series writable fetch float clock dataset_id constraints = Inr files
           \<and> written \<in> set files"
    using process_series_member [of fetch dataset_id droot i writable float clock constraints written]
    by simp
next
  show "map_sum id (map fst) (process_series writable fetch float clock' dataset_id constraints)
     = map_sum id (map fst) (process_series writable fetch float clock dataset_id constraints)"
    by (rule process_series_clock)
qed

theorem filename_from_key_order_witness:
  "process_one ex_writable float_sample ''t'' ''D'' ex_constraints ex_series_slash = None
   \<and> map_option fst (process_one ex_writable float_sample ''t'' ''D'' ex_constraints ex_series_repeated)
       = Some ''series_dataset_D_FREQ-Q.json''
   \<and> map_sum id (map fst)
       (process_series ex_writable (ex_fetch [ex_series]) float_sample (\<lambda>i. ''t'') ''D'' ex_constraints)
       = Inr [''series_dataset_D_FREQ-A_ITTER107-IT.json'']"
proof -
  obtain sd1 where e1: "extract_series_key float_sample ''t'' ''D'' ex_constraints ex_series_slash
                          = Inr sd1"
      and o1: "sd_observations sd1 \<noteq> []"
    by (simp add: ex_defs eval_defs)
  have k1: "[(Some ''FREQ'', Some ''A/B'')]
      = map (\<lambda>v. (attrib_get v ''id'', attrib_get v ''value''))
          (case first (findall_child ''generic:SeriesKey'' ex_series_slash) of
             None \<Rightarrow> [] | Some series_key \<Rightarrow> findall_desc ''generic:Value'' series_key)"
    by (simp add: ex_defs findall_child_def findall_desc_def attrib_get_def)
  have f1: "''series_dataset_D_FREQ-A/B.json'' = ''series_'' @ join ''_'' ((''dataset_'' @ ''D'') #
           map (\<lambda>k. py_str k @ ''-'' @ py_str (case map_of (rev [(Some ''FREQ'', Some ''A/B'')]) k of
                                                  None \<Rightarrow> None | Some c \<Rightarrow> c))
             (rev (remdups (rev (map fst [(Some ''FREQ'', Some ''A/B'')]))))) @ ''.json''"
    by simp
  have w1: "\<not> ex_writable ''series_dataset_D_FREQ-A/B.json''"
    by (simp add: ex_writable_def)
  note a = filename_from_key_order [where writable = ex_writable, THEN conjunct1, THEN mp,
      OF conjI [OF e1 conjI [OF o1 conjI [OF k1 f1]]], THEN conjunct2, THEN mp, OF w1]
  obtain sd2 where e2: "extract_series_key float_sample ''t'' ''D'' ex_constraints ex_series_repeated
                          = Inr sd2"
      and o2: "sd_observations sd2 \<noteq> []"
    by (simp add: ex_defs eval_defs)
  have k2: "[(Some ''FREQ'', Some ''A''), (Some ''FREQ'', Some ''Q'')]
      = map (\<lambda>v. (attrib_get v ''id'', attrib_get v ''value''))
          (case first (findall_child ''generic:SeriesKey'' ex_series_repeated) of
             None \<Rightarrow> [] | Some series_key \<Rightarrow> findall_desc ''generic:Value'' series_key)"
    by (simp add: ex_defs findall_child_def findall_desc_def attrib_get_def)
  have f2: "''series_dataset_D_FREQ-Q.json'' = ''series_'' @ join ''_'' ((''dataset_'' @ ''D'') #
           map (\<lambda>k. py_str k @ ''-'' @ py_str
                  (case map_of (rev [(Some ''FREQ'', Some ''A''), (Some ''FREQ'', Some ''Q'')]) k of
                     None \<Rightarrow> None | Some c \<Rightarrow> c))
             (rev (remdups (rev (map fst [(Some ''FREQ'', Some ''A''), (Some ''FREQ'', Some ''Q'')])))))
           @ ''.json''"
    by simp
  have w2: "ex_writable ''series_dataset_D_FREQ-Q.json''"
    by (simp add: ex_writable_def)
  note b = filename_from_key_order [where writable = ex_writable, THEN conjunct1, THEN mp,
      OF conjI [OF e2 conjI [OF o2 conjI [OF k2 f2]]], THEN conjunct1, THEN mp, OF w2]
  have r: "fetch_series_data (ex_fetch [ex_series]) ''D''
      = Inr (Element ''message:GenericData'' [] None [Element ''message:DataSet'' [] None [ex_series]])"
    by (simp add: fetch_series_data_def ex_fetch_def base_url_def)
  have l: "findall_desc ''generic:Series''
             (Element ''message:GenericData'' [] None [Element ''message:DataSet'' [] None [ex_series]])
           = [ex_series]"
    by (simp add: findall_desc_def ex_defs)
  obtain sd3 where p: "process_one ex_writable float_sample ((\<lambda>i. ''t'') (Suc 0)) ''D'' ex_constraints
                         ([ex_series] ! 0) = Some (''series_dataset_D_FREQ-A_ITTER107-IT.json'', sd3)"
    by (simp add: ex_defs eval_defs)
  have i: "0 < length [ex_series]" by simp
  note c = filename_from_key_order [where writable = ex_writable and fetch = "ex_fetch [ex_series]"
      and dataset_id = "''D''" and i = 0 and clock = "\<lambda>i. ''t''" and float = float_sample
      and constraints = ex_constraints
      and droot = "Element ''message:GenericData'' [] None [Element ''message:DataSet'' [] None [ex_series]]",
      THEN conjunct2, THEN conjunct1, THEN mp, unfolded l, OF conjI [OF r conjI [OF i p]]]
  have s: "map_sum id (map fst)
       (process_series ex_writable (ex_fetch [ex_series]) float_sample (\<lambda>i. ''t'') ''D'' ex_constraints)
       = Inr [''series_dataset_D_FREQ-A_ITTER107-IT.json'']"
    using c by (simp add: ex_defs eval_defs)
  from a b s show ?thesis by simp
qed

text \<open>
  C9 as stated fails: two series with the same set of (dimension, code) pairs, listed in a
  different order in their keys, are written under different file names, so the name is
  not derived from the sorted set of the pairs.
\<close>

theorem filename_sorted_pairs_counterexample:
  "set (map (\<lambda>(concept, info). (concept, m_code info)) (extract_metadata ex_constraints ex_series))
     = set (map (\<lambda>(concept, info). (concept, m_code info))
              (extract_metadata ex_constraints ex_series_reordered))
   \<and> map_option fst (process_one ex_writable float_sample ''t'' ''D'' ex_constraints ex_series)
       = Some ''series_dataset_D_FREQ-A_ITTER107-IT.json''
   \<and> map_option fst (process_one ex_writable float_sample ''t'' ''D'' ex_constraints ex_series_reordered)
       = Some ''series_dataset_D_ITTER107-IT_FREQ-A.json''"
  by (simp add: ex_defs eval_defs insert_commute)

section \<open>Properties of the Codelist Mapping Resolver\<close>

text \<open>
  C6, as the code has it. \<^verbatim>\<open>build_mapping\<close> fails with the \<^verbatim>\<open>ValueError\<close> of
  \<^verbatim>\<open>get_structure_from_data\<close> when the data response has no structure element or that
  element has no reference. A dimension without an id or without an enumeration reference
  and a code without an id raise nothing: \<^verbatim>\<open>get_dimension_codelist_refs\<close> returns the
  references of exactly the dimensions that have both, \<^verbatim>\<open>get_codelist_values\<close> the
  values of exactly the codes that have an id.
\<close>

theorem structure_reference_required:
  "(fetch (base_url @ ''/data/'' @ dataset_id) = Inr droot
      \<and> (first (findall_desc ''common:Structure'' droot) = None
         \<or> (\<exists>struct_elem. first (findall_desc ''common:Structure'' droot) = Some struct_elem
               \<and> first (findall_child ''Ref'' struct_elem) = None))
    \<longrightarrow> build_mapping fetch now dataset_id = Inl ValueError)
   \<and> (fetch (base_url @ ''/datastructure/'' @ py_str (agency_id structure_info) @ ''/''
                @ py_str (structure_id structure_info)) = Inr sroot
    \<longrightarrow> (\<exists>refs. get_dimension_codelist_refs fetch structure_info = Inr refs
          \<and> fst ` set refs =
              {dim_id. \<exists>dim\<in>set (findall_desc ''structure:Dimension'' sroot).
                 attrib_get dim ''id'' = Some dim_id \<and> dim_id \<noteq> []
               \<and> first (findall_desc_child ''structure:Enumeration'' ''Ref'' dim) \<noteq> None}))
   \<and> (fetch (base_url @ ''/codelist/'' @ py_str (cl_agency_id codelist_ref) @ ''/''
                @ py_str (cl_id codelist_ref)) = Inr croot
    \<longrightarrow> (\<exists>data. get_codelist_values fetch codelist_ref = Inr data
          \<and> fst ` set (cd_values data) =
              {code_id. \<exists>code\<in>set (findall_desc ''structure:Code'' croot).
                 attrib_get code ''id'' = Some code_id \<and> code_id \<noteq> []}))"
proof (intro conjI impI)
  assume "fetch (base_url @ ''/data/'' @ dataset_id) = Inr droot
      \<and> (first (findall_desc ''common:Structure'' droot) = None
         \<or> (\<exists>struct_elem. first (findall_desc ''common:Structure'' droot) = Some struct_elem
               \<and> first (findall_child ''Ref'' struct_elem) = None))"
  then have "get_structure_from_data fetch dataset_id = Inl ValueError"
    by (auto simp add: get_structure_from_data_def)
  then show "build_mapping fetch now dataset_id = Inl ValueError"
    by (simp add: build_mapping_def)
next
  assume "fetch (base_url @ ''/datastructure/'' @ py_str (agency_id structure_info) @ ''/''
                @ py_str (structure_id structure_info)) = Inr sroot"
  then show "\<exists>refs. get_dimension_codelist_refs fetch structure_info = Inr refs
          \<and> fst ` set refs =
              {dim_id. \<exists>dim\<in>set (findall_desc ''structure:Dimension'' sroot).
                 attrib_get dim ''id'' = Some dim_id \<and> dim_id \<noteq> []
               \<and> first (findall_desc_child ''structure:Enumeration'' ''Ref'' dim) \<noteq> None}"
    by (simp only: get_dimension_codelist_refs_def ebind_Inr codelist_refs_keys sum.inject
          simp_thms ex_simps)
next
  assume "fetch (base_url @ ''/codelist/'' @ py_str (cl_agency_id codelist_ref) @ ''/''
                @ py_str (cl_id codelist_ref)) = Inr croot"
  then show "\<exists>data. get_codelist_values fetch codelist_ref = Inr data
          \<and> fst ` set (cd_values data) =
              {code_id. \<exists>code\<in>set (findall_desc ''structure:Code'' croot).
                 attrib_get code ''id'' = Some code_id \<and> code_id \<noteq> []}"
    by (simp only: get_codelist_values_def ebind_Inr code_values_keys sum.inject
          simp_thms ex_simps codelist_data.simps)
qed

theorem structure_reference_required_witness:
  "build_mapping ex_service_bare ''t'' ''D'' = Inl ValueError
   \<and> map_sum id (map fst) (get_dimension_codelist_refs ex_service ex_structure_info)
       = Inr [''FREQ'']
   \<and> map_sum id (\<lambda>data. map fst (cd_values data)) (get_codelist_values ex_service ex_codelist_ref)
       = Inr [''A'']"
proof -
  have f: "ex_service_bare (base_url @ ''/data/'' @ ''D'') = Inr ex_bare_response"
    by (simp add: ex_service_bare_def base_url_def)
  have n: "first (findall_desc ''common:Structure'' ex_bare_response) = None"
    by (simp add: ex_bare_response_def findall_desc_def)
  have s: "ex_service (base_url @ ''/datastructure/'' @ py_str (agency_id ex_structure_info) @ ''/''
                @ py_str (structure_id ex_structure_info)) = Inr ex_datastructure_response"
    by (simp add: ex_service_def ex_structure_info_def base_url_def)
  have c: "ex_service (base_url @ ''/codelist/'' @ py_str (cl_agency_id ex_codelist_ref) @ ''/''
                @ py_str (cl_id ex_codelist_ref)) = Inr ex_codelist_response"
    by (simp add: ex_service_def ex_codelist_ref_def base_url_def)
  note t = structure_reference_required [of ex_service_bare "''D''" ex_bare_response "''t''"]
  from t f n have 1: "build_mapping ex_service_bare ''t'' ''D'' = Inl ValueError"
    by (simp only: simp_thms)
  note u = structure_reference_required [where fetch = ex_service
      and structure_info = ex_structure_info and sroot = ex_datastructure_response,
      THEN conjunct2, THEN conjunct1, THEN mp, OF s]
  note v = structure_reference_required [where fetch = ex_service
      and codelist_ref = ex_codelist_ref and croot = ex_codelist_response,
      THEN conjunct2, THEN conjunct2, THEN mp, OF c]
  have 2: "map_sum id (map fst) (get_dimension_codelist_refs ex_service ex_structure_info)
       = Inr [''FREQ'']"
    using u by (simp add: ex_defs mapping_eval)
  have 3: "map_sum id (\<lambda>data. map fst (cd_values data)) (get_codelist_values ex_service ex_codelist_ref)
       = Inr [''A'']"
    using v by (simp add: ex_defs mapping_eval)
  from 1 2 3 show ?thesis by (intro conjI)
qed

text \<open>
  C6 as stated fails: the structure definition of \<open>D\<close> has a dimension without an
  enumeration reference and its code list has a code without an id, and \<^verbatim>\<open>build_mapping\<close>
  returns a mapping (without that dimension and that code) instead of an error.
\<close>

theorem missing_enumeration_counterexample:
  "ex_dimension_no_enum \<in> set (findall_desc ''structure:Dimension'' ex_datastructure_response)
   \<and> first (findall_desc_child ''structure:Enumeration'' ''Ref'' ex_dimension_no_enum) = None
   \<and> ex_code_no_id \<in> set (findall_desc ''structure:Code'' ex_codelist_response)
   \<and> attrib_get ex_code_no_id ''id'' = None
   \<and> build_mapping ex_service ''t'' ''D'' = Inr ex_mapping"
  by (simp add: ex_defs mapping_eval)

section \<open>Properties of the Constraint Resolver\<close>

text \<open>
  C7. When the dataflow and constraint endpoints answer, the mapping file is there, and
  the constraint response has no \<^verbatim>\<open>CubeRegion\<close>, \<^verbatim>\<open>get_available_constraints\<close>
  returns the empty dict without raising and \<^verbatim>\<open>build_constraints_overview\<close> returns an
  overview with the \<^verbatim>\<open>dataset_info\<close> block of the dataset and no dimension.
\<close>

theorem absent_cube_region_empty_overview:
  assumes "fetch (base_url @ ''/dataflow/IT1/'' @ dataset_id) = Inr froot"
      and "fetch (base_url @ ''/availableconstraint/'' @ dataset_id) = Inr croot"
      and "first (findall_desc ''structure:CubeRegion'' croot) = None"
      and "mappings (''mapping_'' @ dataset_id @ ''.json'') = Some mapping"
  shows "get_available_constraints fetch dataset_id = Inr []
       \<and> (\<exists>info. get_dataflow_info fetch dataset_id = Inr info \<and> df_id info = dataset_id
            \<and> build_constraints_overview fetch mappings now dataset_id
                = Inr \<lparr>ov_dataset_info = info, ov_generated_at = now, ov_dimensions = []\<rparr>)"
proof -
  have a: "get_available_constraints fetch dataset_id = Inr []"
    using assms(2,3) by (simp add: get_available_constraints_def)
  obtain info where i: "get_dataflow_info fetch dataset_id = Inr info" and d: "df_id info = dataset_id"
    using assms(1) by (cases "first (findall_desc ''structure:Dataflow'' froot)")
      (simp_all add: get_dataflow_info_def)
  have l: "load_mapping_file mappings dataset_id = Inr mapping"
    using assms(4) by (simp add: load_mapping_file_def)
  have "build_constraints_overview fetch mappings now dataset_id
          = Inr \<lparr>ov_dataset_info = info, ov_generated_at = now, ov_dimensions = []\<rparr>"
    by (simp only: build_constraints_overview_def i a l ebind_Inr efold.simps)
  with a i d show ?thesis by blast
qed

theorem absent_cube_region_empty_overview_witness:
  "build_constraints_overview ex_service_bare ex_mappings ''t'' ''D''
     = Inr \<lparr>ov_dataset_info = \<lparr>df_id = ''D'', df_names = [(Some ''en'', Some ''Demo'')],
                                 df_structure_reference = []\<rparr>,
            ov_generated_at = ''t'', ov_dimensions = []\<rparr>"
proof -
  have f: "ex_service_bare (base_url @ ''/dataflow/IT1/'' @ ''D'') = Inr ex_dataflow_response"
    by (simp add: ex_service_bare_def base_url_def)
  have c: "ex_service_bare (base_url @ ''/availableconstraint/'' @ ''D'') = Inr ex_bare_response"
    by (simp add: ex_service_bare_def base_url_def)
  have n: "first (findall_desc ''structure:CubeRegion'' ex_bare_response) = None"
    by (simp add: ex_bare_response_def findall_desc_def)
  have m: "ex_mappings (''mapping_'' @ ''D'' @ ''.json'') = Some (mapping_json ex_mapping)"
    by (simp add: ex_mappings_def)
  have i: "get_dataflow_info ex_service_bare ''D''
             = Inr \<lparr>df_id = ''D'', df_names = [(Some ''en'', Some ''Demo'')],
                    df_structure_reference = []\<rparr>"
    by (simp add: ex_defs overview_eval)
  from absent_cube_region_empty_overview [of ex_service_bare "''D''" ex_dataflow_response
      ex_bare_response ex_mappings "mapping_json ex_mapping" "''t''"] f c n m i
  show ?thesis by simp
qed

text \<open>
  C8. For a mapping file written by the Codelist Mapping Resolver (any value that
  \<^verbatim>\<open>build_mapping\<close> can return, as \<^verbatim>\<open>json.load\<close> reads it back), the build does not
  fail once the two endpoints have answered: every constrained dimension and every one of
  its codes is in the overview; a code without an entry in the mapping gets the label
  \<^verbatim>\<open>{"default": code}\<close>, a code with an entry gets the names of that entry.
\<close>

theorem missing_label_synthesized:
  assumes i: "get_dataflow_info fetch dataset_id = Inr info"
      and a: "get_available_constraints fetch dataset_id = Inr available"
      and f: "mappings (''mapping_'' @ dataset_id @ ''.json'') = Some (mapping_json m)"
  shows "\<exists>ov. build_constraints_overview fetch mappings now dataset_id = Inr ov
       \<and> map fst (ov_dimensions ov) = map fst available
       \<and> (\<forall>dim_id vals val. (dim_id, vals) \<in> set available \<and> val \<in> set vals \<longrightarrow>
            (\<exists>d entry. map_of (ov_dimensions ov) dim_id = Some d
               \<and> map_of (d_values d) val = Some entry
               \<and> ((\<forall>dm. map_of (mp_dimensions m) dim_id = Some dm \<longrightarrow> map_of (dm_values dm) val = None)
                    \<longrightarrow> entry = JObj [(''name'', JObj [(''default'', JStr val)])])
               \<and> (\<forall>dm cv. map_of (mp_dimensions m) dim_id = Some dm \<and> map_of (dm_values dm) val = Some cv
                    \<longrightarrow> entry = JObj [(''name'', lang_json (cv_name cv))])))"
proof -
  let ?dims = "map (\<lambda>(dim_id, vals). (dim_id,
                    \<lparr>d_id = dim_id,
                     d_values = fold (\<lambda>val entries. dict_set val (label_of m dim_id val) entries) vals []\<rparr>))
                  available"
  let ?ov = "\<lparr>ov_dataset_info = info, ov_generated_at = now, ov_dimensions = ?dims\<rparr>"
  have b: "build_constraints_overview fetch mappings now dataset_id = Inr ?ov"
    using i a f by (rule build_overview_mapping)
  have k: "map fst ?dims = map fst available"
    by (simp add: split_def comp_def)
  have e: "\<exists>d entry. map_of ?dims dim_id = Some d
               \<and> map_of (d_values d) val = Some entry
               \<and> ((\<forall>dm. map_of (mp_dimensions m) dim_id = Some dm \<longrightarrow> map_of (dm_values dm) val = None)
                    \<longrightarrow> entry = JObj [(''name'', JObj [(''default'', JStr val)])])
               \<and> (\<forall>dm cv. map_of (mp_dimensions m) dim_id = Some dm \<and> map_of (dm_values dm) val = Some cv
                    \<longrightarrow> entry = JObj [(''name'', lang_json (cv_name cv))])"
    if p: "(dim_id, vals) \<in> set available" and q: "val \<in> set vals" for dim_id vals val
  proof -
    have "distinct (map fst available)" by (rule available_constraints_distinct [OF a])
    with p have "map_of available dim_id = Some vals" by simp
    then have 1: "map_of ?dims dim_id = Some \<lparr>d_id = dim_id,
          d_values = fold (\<lambda>val entries. dict_set val (label_of m dim_id val) entries) vals []\<rparr>"
      by (simp add: map_of_map_keyed
            [of "\<lambda>dim_id vals. \<lparr>d_id = dim_id,
                   d_values = fold (\<lambda>val entries. dict_set val (label_of m dim_id val) entries) vals []\<rparr>"])
    have 2: "map_of (fold (\<lambda>val entries. dict_set val (label_of m dim_id val) entries) vals []) val
               = Some (label_of m dim_id val)"
      using q by (rule map_of_fold_dict_set)
    have 3: "(\<forall>dm. map_of (mp_dimensions m) dim_id = Some dm \<longrightarrow> map_of (dm_values dm) val = None)
                    \<longrightarrow> label_of m dim_id val = JObj [(''name'', JObj [(''default'', JStr val)])]"
      by (auto simp add: label_of_def split: option.splits)
    have 4: "\<forall>dm cv. map_of (mp_dimensions m) dim_id = Some dm \<and> map_of (dm_values dm) val = Some cv
                    \<longrightarrow> label_of m dim_id val = JObj [(''name'', lang_json (cv_name cv))]"
      by (auto simp add: label_of_def)
    from 1 2 3 4 show ?thesis by simp
  qed
  show ?thesis
    by (rule exI [of _ ?ov]) (simp only: b k e overview.simps simp_thms, blast intro: e)
qed

theorem missing_label_synthesized_witness:
  "map_sum id (\<lambda>ov. map (\<lambda>(dim_id, d). (dim_id, d_values d)) (ov_dimensions ov))
     (build_constraints_overview ex_service ex_mappings ''t'' ''D'')
   = Inr [(''FREQ'', [(''A'', JObj [(''name'', JObj [(''en'', JStr ''annual'')])]),
                      (''Q'', JObj [(''name'', JObj [(''default'', JStr ''Q'')])])])]"
proof -
  have i: "get_dataflow_info ex_service ''D''
             = Inr \<lparr>df_id = ''D'', df_names = [(Some ''en'', Some ''Demo'')],
                    df_structure_reference = []\<rparr>"
    by (simp add: ex_defs overview_eval)
  have a: "get_available_constraints ex_service ''D'' = Inr [(''FREQ'', [''A'', ''Q''])]"
    by (simp add: ex_defs overview_eval)
  have m: "ex_mappings (''mapping_'' @ ''D'' @ ''.json'') = Some (mapping_json ex_mapping)"
    by (simp add: ex_mappings_def)
  have e: "map_sum id (\<lambda>ov. map (\<lambda>(dim_id, d). (dim_id, d_values d)) (ov_dimensions ov))
     (build_constraints_overview ex_service ex_mappings ''t'' ''D'')
   = Inr [(''FREQ'', [(''A'', JObj [(''name'', JObj [(''en'', JStr ''annual'')])]),
                      (''Q'', JObj [(''name'', JObj [(''default'', JStr ''Q'')])])])]"
    by (simp add: ex_defs overview_eval)
  from missing_label_synthesized [of ex_service "''D''" _ _ ex_mappings ex_mapping "''t''", OF i a m] e
  show ?thesis by simp
qed

end
